theory Spec2Isabelle
  imports Main
begin

section \<open>Data model\<close>

text \<open>
  The records follow the TypeScript interfaces of
  \<^verbatim>\<open>components/generative/WorkflowExecutor.tsx\<close> and the zod schema of
  \<^verbatim>\<open>components/interactable/WorkflowLibrary.tsx\<close>. Several interfaces share field
  names (\<^verbatim>\<open>status\<close>, \<^verbatim>\<open>title\<close>, ...), so the fields of \<^verbatim>\<open>StepStatus\<close> carry the
  prefix \<open>step_\<close>, those of \<^verbatim>\<open>WorkflowStatus\<close> the prefix \<open>wf_\<close>, those of an initial
  step definition the prefix \<open>init_\<close> and those of a library entry the prefix \<open>sm_\<close>.
  A JavaScript \<^verbatim>\<open>number\<close> that holds a counter is an \<open>int\<close>, an optional field is an
  \<open>option\<close>, and a status is the string the JSON payload carries: the code compares it
  with \<^verbatim>\<open>===\<close> against string literals and never validates it.
\<close>

record StepStatus =
  step_index :: int
  step_type :: string
  step_title :: string
  step_description :: "string option"
  step_status :: string
  step_error :: "string option"
  step_durationMs :: "int option"
  step_hasOutput :: "bool option"

record WorkflowStatus =
  wf_workflowId :: string
  wf_title :: string
  wf_description :: "string option"
  wf_query :: string
  wf_status :: string
  wf_currentStep :: int
  wf_totalSteps :: int
  wf_progress :: int
  wf_steps :: "StepStatus list"
  wf_outputFormat :: "string option"
  wf_errorMessage :: "string option"
  wf_failedStep :: "int option"
  wf_reportId :: "string option"
  wf_reportTitle :: "string option"
  wf_createdAt :: string
  wf_completedAt :: "string option"

text \<open>One element of the optional \<^verbatim>\<open>steps\<close> prop of \<^verbatim>\<open>WorkflowExecutor\<close>.\<close>

record InitialStep =
  init_index :: int
  init_type :: string
  init_title :: string
  init_description :: "string option"
  init_status :: "string option"

record report_ref =
  report_id :: string
  report_title :: string

record WorkflowSummary =
  sm_id :: string
  sm_title :: string
  sm_description :: "string option"
  sm_query :: string
  sm_status :: string
  sm_currentStep :: int
  sm_totalSteps :: int
  sm_sources :: "string list"
  sm_outputFormat :: string
  sm_errorMessage :: "string option"
  sm_createdAt :: string
  sm_completedAt :: "string option"
  sm_report :: "report_ref option"

section \<open>Step renderer\<close>

text \<open>
  \<^verbatim>\<open>stepIcons\<close> and \<^verbatim>\<open>statusIcons\<close> are object literals, and the renderer reads them
  with a computed key: \<^verbatim>\<open>stepIcons[step.type] || FileText\<close>. A property read on an
  object literal first looks at the object's own properties and then follows the
  prototype chain to \<^verbatim>\<open>Object.prototype\<close>. The result of the read is therefore one
  of the lucide components of the literal, a member inherited from
  \<^verbatim>\<open>Object.prototype\<close>, or \<^verbatim>\<open>undefined\<close> (here \<open>None\<close>).
\<close>

datatype icon =
  Search | Filter | Brain | Layers | FileText
  | Loader | CheckCircle2 | XCircle | Clock

datatype 'a js_property = Own 'a | Inherited string

definition Object_prototype :: "string list" where
  "Object_prototype =
     [''constructor'', ''__proto__'', ''hasOwnProperty'', ''isPrototypeOf'',
      ''propertyIsEnumerable'', ''toLocaleString'', ''toString'', ''valueOf'',
      ''__defineGetter__'', ''__defineSetter__'', ''__lookupGetter__'',
      ''__lookupSetter__'']"

definition js_get :: "(string \<times> 'a) list \<Rightarrow> string \<Rightarrow> 'a js_property option" where
  "js_get obj k =
     (case map_of obj k of
        Some v \<Rightarrow> Some (Own v)
      | None \<Rightarrow> if k \<in> set Object_prototype then Some (Inherited k) else None)"

definition stepIcons :: "(string \<times> icon) list" where
  "stepIcons =
     [(''search'', Search), (''extract'', Filter), (''analyze'', Brain),
      (''aggregate'', Layers), (''generate_report'', FileText)]"

record status_info =
  info_icon :: icon
  info_color :: string
  info_animate :: "string option"

definition statusIcons :: "(string \<times> status_info) list" where
  "statusIcons =
     [(''pending'', \<lparr>info_icon = Clock, info_color = ''text-gray-400'', info_animate = None\<rparr>),
      (''running'', \<lparr>info_icon = Loader, info_color = ''text-blue-600'',
                     info_animate = Some ''animate-spin''\<rparr>),
      (''completed'', \<lparr>info_icon = CheckCircle2, info_color = ''text-green-600'',
                       info_animate = None\<rparr>),
      (''failed'', \<lparr>info_icon = XCircle, info_color = ''text-red-600'', info_animate = None\<rparr>)]"

text \<open>
  \<^verbatim>\<open>const StepIcon = stepIcons[step.type] || FileText\<close>: every value the read can give
  (a component, a function or an object of \<^verbatim>\<open>Object.prototype\<close>) is truthy, so the
  fallback is taken exactly when the read gives \<^verbatim>\<open>undefined\<close>.
\<close>

definition StepIcon :: "string \<Rightarrow> icon js_property" where
  "StepIcon ty = (case js_get stepIcons ty of Some v \<Rightarrow> v | None \<Rightarrow> Own FileText)"

text \<open>\<^verbatim>\<open>const StatusInfo = statusIcons[step.status] || statusIcons.pending\<close>.\<close>

definition StatusInfo :: "string \<Rightarrow> status_info js_property" where
  "StatusInfo st =
     (case js_get statusIcons st of
        Some v \<Rightarrow> v
      | None \<Rightarrow> Own \<lparr>info_icon = Clock, info_color = ''text-gray-400'', info_animate = None\<rparr>)"

text \<open>The pair of affordances a row of the steps list is drawn with.\<close>

definition step_affordance :: "StepStatus \<Rightarrow> icon js_property \<times> status_info js_property" where
  "step_affordance step = (StepIcon (step_type step), StatusInfo (step_status step))"

text \<open>
  What React makes of the two elements of a row, \<^verbatim>\<open><StepIcon size={10} />\<close> and
  \<^verbatim>\<open><StatusIcon ... />\<close> with \<^verbatim>\<open>StatusIcon = StatusInfo.icon\<close>; \<open>None\<close> stands for
  a render that throws.

  A lucide component draws its icon. An inherited member is no component. As
  \<^verbatim>\<open>StepIcon\<close>: \<^verbatim>\<open>__proto__\<close> is an object, which is no element type, so React throws;
  the others are functions, which React calls as function components, with \<^verbatim>\<open>this\<close>
  undefined. \<^verbatim>\<open>Object.prototype.toString\<close> then returns the string
  \<^verbatim>\<open>[object Undefined]\<close>, which is drawn as text; \<^verbatim>\<open>constructor\<close> (that is,
  \<^verbatim>\<open>Object\<close>) returns the props object, which is no valid child, so React throws;
  every other member throws a \<^verbatim>\<open>TypeError\<close> when it converts \<^verbatim>\<open>this\<close> to an
  object. As \<^verbatim>\<open>StatusInfo\<close>: an inherited member has no property \<^verbatim>\<open>icon\<close>, so
  \<^verbatim>\<open>StatusIcon\<close> is undefined, which is no element type, and React throws.
\<close>

datatype drawn = Component icon | Text string

definition draw_StepIcon :: "icon js_property \<Rightarrow> drawn option" where
  "draw_StepIcon v =
     (case v of
        Own i \<Rightarrow> Some (Component i)
      | Inherited k \<Rightarrow> if k = ''toString'' then Some (Text ''[object Undefined]'') else None)"

definition draw_StatusIcon :: "status_info js_property \<Rightarrow> drawn option" where
  "draw_StatusIcon v =
     (case v of
        Own info \<Rightarrow> Some (Component (info_icon info))
      | Inherited k \<Rightarrow> None)"

definition draw_row :: "StepStatus \<Rightarrow> (drawn \<times> drawn) option" where
  "draw_row step =
     (case step_affordance step of
        (step_icon, status) \<Rightarrow>
          (case draw_StatusIcon status of
             None \<Rightarrow> None
           | Some y \<Rightarrow> (case draw_StepIcon step_icon of None \<Rightarrow> None | Some x \<Rightarrow> Some (x, y))))"

definition row_throws :: "StepStatus \<Rightarrow> bool" where
  "row_throws step = (draw_row step = None)"

definition known_vocabulary :: "string list" where
  "known_vocabulary = [''search'', ''extract'', ''analyze'', ''aggregate'', ''generate_report'']"

section \<open>Derived display data of the executor\<close>

text \<open>
  \<^verbatim>\<open>(s.status as StepStatus['status']) || 'pending'\<close>: a missing or empty status of an
  initial step is shown as pending.
\<close>

definition initial_to_step :: "InitialStep \<Rightarrow> StepStatus" where
  "initial_to_step s =
     \<lparr>step_index = init_index s, step_type = init_type s, step_title = init_title s,
      step_description = init_description s,
      step_status = (case init_status s of
                       None \<Rightarrow> ''pending''
                     | Some st \<Rightarrow> if st = [] then ''pending'' else st),
      step_error = None, step_durationMs = None, step_hasOutput = None\<rparr>"

text \<open>
  \<^verbatim>\<open>workflowStatus?.steps || initialSteps?.map(...) || []\<close>. An array is truthy also
  when it is empty, so a cached status always supplies the steps.
\<close>

definition derive_steps :: "WorkflowStatus option \<Rightarrow> InitialStep list option \<Rightarrow> StepStatus list" where
  "derive_steps ws initialSteps =
     (case ws of
        Some w \<Rightarrow> wf_steps w
      | None \<Rightarrow> (case initialSteps of Some xs \<Rightarrow> map initial_to_step xs | None \<Rightarrow> []))"

definition completedCount :: "StepStatus list \<Rightarrow> nat" where
  "completedCount sts = length (filter (\<lambda>s. step_status s = ''completed'') sts)"

text \<open>
  The header of the executor's progress bar:
  \<^verbatim>\<open>Step {Math.min(completedCount + 1, totalSteps)} of {totalSteps}\<close>, where
  \<^verbatim>\<open>totalSteps\<close> is the local constant \<^verbatim>\<open>steps.length\<close>. The pair is (shown step,
  shown total).
\<close>

definition progress_header :: "WorkflowStatus option \<Rightarrow> InitialStep list option \<Rightarrow> nat \<times> nat" where
  "progress_header ws initialSteps =
     (let sts = derive_steps ws initialSteps;
          total = length sts
      in (min (completedCount sts + 1) total, total))"

text \<open>
  The card of an active workflow in the library:
  \<^verbatim>\<open>Step {workflow.currentStep + 1} of {workflow.totalSteps}\<close>.
\<close>

definition library_step_label :: "WorkflowSummary \<Rightarrow> int \<times> int" where
  "library_step_label w = (sm_currentStep w + 1, sm_totalSteps w)"

section \<open>The network\<close>

text \<open>
  A call of \<^verbatim>\<open>fetch\<close> either rejects (with the message of the error) or resolves
  with a response, of which the code reads \<^verbatim>\<open>response.ok\<close> and, for some calls,
  the JSON body; reading the body can reject as well.
\<close>

datatype 'a body = Json 'a | Unparsable string

datatype 'a response = Rejected string | Responded bool "'a body"

section \<open>WorkflowExecutor: state and operations\<close>

text \<open>
  What the component reads from outside: the stream status of the hook
  \<^verbatim>\<open>useTamboStreamStatus\<close>, as the boolean
  \<^verbatim>\<open>isStreaming = !streamStatus.isSuccess && !streamStatus.isError\<close>, and its two props.
\<close>

record inputs =
  isStreaming :: bool
  workflowId :: string
  initialSteps :: "InitialStep list option"

text \<open>
  Every request the component sends is logged in the order of the calls. A status
  request also records which piece of code called \<^verbatim>\<open>fetchStatus\<close>: the effect, the
  interval timer, an action handler, or the button of the error view.
\<close>

datatype origin = FromEffect | FromTimer | FromHandler | FromErrorButton

datatype request = GetStatus origin string | PostCancel string | PostRetry string

fun http_method :: "request \<Rightarrow> string" where
  "http_method (GetStatus _ _) = ''GET''"
| "http_method (PostCancel _) = ''POST''"
| "http_method (PostRetry _) = ''POST''"

fun url :: "request \<Rightarrow> string" where
  "url (GetStatus _ wid) = ''/api/workflows/'' @ wid @ ''/status''"
| "url (PostCancel wid) = ''/api/workflows/'' @ wid @ ''/cancel''"
| "url (PostRetry wid) = ''/api/workflows/'' @ wid @ ''/retry''"

fun is_status_request :: "request \<Rightarrow> bool" where
  "is_status_request (GetStatus _ _) = True"
| "is_status_request _ = False"

fun timer_driven :: "request \<Rightarrow> bool" where
  "timer_driven (GetStatus FromTimer _) = True"
| "timer_driven _ = False"

text \<open>
  The four \<^verbatim>\<open>useState\<close> cells and the ref of the component, followed by the parts of
  the runtime the code acts on: the active interval timers (identifier and the workflow
  id captured by the callback), the number of timers created so far, the dependencies of
  the last run of the effect and whether that run returned a cleanup function, the
  requests sent, the indices of the requests whose promise has settled, and the lines
  written with \<^verbatim>\<open>console.error\<close>.
\<close>

record executor =
  workflowStatus :: "WorkflowStatus option"
  expandedStep :: "int option"
  polling :: bool
  error :: "string option"
  intervalRef :: "nat option"
  timers :: "(nat \<times> string) list"
  timer_seq :: nat
  effect_deps :: "(bool \<times> string \<times> bool) option"
  has_cleanup :: bool
  network :: "request list"
  settled :: "nat list"
  console :: "string list"

definition init :: executor where
  "init = \<lparr>workflowStatus = None, expandedStep = None, polling = True, error = None,
           intervalRef = None, timers = [], timer_seq = 0, effect_deps = None,
           has_cleanup = False, network = [], settled = [], console = []\<rparr>"

text \<open>\<^verbatim>\<open>fetchStatus\<close>, up to its \<^verbatim>\<open>await\<close>: one GET for the captured workflow id.\<close>

definition fetchStatus :: "origin \<Rightarrow> string \<Rightarrow> executor \<Rightarrow> executor" where
  "fetchStatus org wid s = s\<lparr>network := network s @ [GetStatus org wid]\<rparr>"

definition is_terminal :: "string \<Rightarrow> bool" where
  "is_terminal st = (st = ''completed'' \<or> st = ''failed'')"

text \<open>
  \<^verbatim>\<open>fetchStatus\<close>, after its \<^verbatim>\<open>await\<close>: a rejected request, a response that is not
  ok and a body that does not parse all end in the \<^verbatim>\<open>catch\<close> block; a parsed body is
  stored, the error is reset, and a terminal status turns the polling flag off. The body
  is not validated. JSON \<^verbatim>\<open>null\<close> parses, so \<^verbatim>\<open>setWorkflowStatus(null)\<close> and
  \<^verbatim>\<open>setError(null)\<close> run, and then the read \<^verbatim>\<open>data.status\<close> throws a
  \<^verbatim>\<open>TypeError\<close> into the \<^verbatim>\<open>catch\<close> block, which sets the error to its message
  (the wording of the message is the engine's).
\<close>

definition null_status_message :: string where
  "null_status_message = ''Cannot read properties of null (reading 'status')''"

definition fetchStatus_resume :: "WorkflowStatus option response \<Rightarrow> executor \<Rightarrow> executor" where
  "fetchStatus_resume r s =
     (case r of
        Rejected msg \<Rightarrow> s\<lparr>error := Some msg\<rparr>
      | Responded ok b \<Rightarrow>
          if \<not> ok then s\<lparr>error := Some ''Failed to fetch status''\<rparr>
          else (case b of
                  Unparsable msg \<Rightarrow> s\<lparr>error := Some msg\<rparr>
                | Json None \<Rightarrow> s\<lparr>workflowStatus := None, error := Some null_status_message\<rparr>
                | Json (Some data) \<Rightarrow>
                    let s1 = s\<lparr>workflowStatus := Some data, error := None\<rparr>
                    in if is_terminal (wf_status data) then s1\<lparr>polling := False\<rparr> else s1))"

text \<open>
  The cleanup function of the effect:
  \<^verbatim>\<open>if (intervalRef.current) clearInterval(intervalRef.current)\<close>.
  The identifier \<open>0\<close> would be falsy.
\<close>

definition cleanup :: "executor \<Rightarrow> executor" where
  "cleanup s =
     (case intervalRef s of
        None \<Rightarrow> s
      | Some t \<Rightarrow> if t = 0 then s else s\<lparr>timers := filter (\<lambda>(i, w). i \<noteq> t) (timers s)\<rparr>)"

text \<open>
  \<^verbatim>\<open>setInterval(fetchStatus, 2500)\<close> returns a fresh positive identifier.
\<close>

definition setInterval :: "string \<Rightarrow> executor \<Rightarrow> executor" where
  "setInterval wid s =
     (let t = Suc (timer_seq s)
      in s\<lparr>intervalRef := Some t, timers := timers s @ [(t, wid)], timer_seq := t\<rparr>)"

text \<open>
  The body of the effect. The early return registers no cleanup function.
\<close>

definition effect :: "inputs \<Rightarrow> executor \<Rightarrow> executor" where
  "effect p s =
     (if isStreaming p \<or> workflowId p = [] then s\<lparr>has_cleanup := False\<rparr>
      else let s1 = fetchStatus FromEffect (workflowId p) s;
               s2 = (if polling s1 then setInterval (workflowId p) s1 else s1)
           in s2\<lparr>has_cleanup := True\<rparr>)"

text \<open>
  What React does after a render: the effect has the dependencies
  \<^verbatim>\<open>[isStreaming, workflowId, polling, fetchStatus]\<close>, and \<^verbatim>\<open>fetchStatus\<close> changes
  exactly when \<^verbatim>\<open>workflowId\<close> does. On the first render and whenever a dependency has
  changed, the cleanup function of the previous run (if it returned one) is called and
  the effect runs again.
\<close>

definition commit :: "inputs \<Rightarrow> executor \<Rightarrow> executor" where
  "commit p s =
     (let d = (isStreaming p, workflowId p, polling s)
      in if effect_deps s = Some d then s
         else effect p ((if has_cleanup s then cleanup s else s)\<lparr>effect_deps := Some d\<rparr>))"

text \<open>
  \<^verbatim>\<open>handleCancel\<close> and \<^verbatim>\<open>handleRetry\<close>, before and after their \<^verbatim>\<open>await\<close>. Neither
  handler reads the response: any resolved request continues, a rejected one is logged.
\<close>

definition handleCancel :: "string \<Rightarrow> executor \<Rightarrow> executor" where
  "handleCancel wid s = s\<lparr>network := network s @ [PostCancel wid]\<rparr>"

definition handleCancel_resume :: "string \<Rightarrow> unit response \<Rightarrow> executor \<Rightarrow> executor" where
  "handleCancel_resume wid r s =
     (case r of
        Rejected msg \<Rightarrow> s\<lparr>console := console s @ [''Cancel failed: '' @ msg]\<rparr>
      | Responded ok b \<Rightarrow> fetchStatus FromHandler wid s)"

definition handleRetry :: "string \<Rightarrow> executor \<Rightarrow> executor" where
  "handleRetry wid s = s\<lparr>network := network s @ [PostRetry wid]\<rparr>"

definition handleRetry_resume :: "string \<Rightarrow> unit response \<Rightarrow> executor \<Rightarrow> executor" where
  "handleRetry_resume wid r s =
     (case r of
        Rejected msg \<Rightarrow> s\<lparr>console := console s @ [''Retry failed: '' @ msg]\<rparr>
      | Responded ok b \<Rightarrow> fetchStatus FromHandler wid (s\<lparr>polling := True\<rparr>))"

section \<open>WorkflowExecutor: what is rendered\<close>

record tracker =
  shown_title :: string
  shown_status :: string
  shown_progress :: int
  shown_header :: "nat \<times> nat"
  shown_steps :: "StepStatus list"
  cancel_button :: bool
  retry_button :: bool

datatype view = Preparing | LoadFailed string | Tracker tracker | Crashed

text \<open>\<^verbatim>\<open>workflowStatus?.status || 'pending'\<close> and its two neighbours.\<close>

definition display_status :: "WorkflowStatus option \<Rightarrow> string" where
  "display_status ws =
     (case ws of None \<Rightarrow> ''pending'' | Some w \<Rightarrow> if wf_status w = [] then ''pending'' else wf_status w)"

definition display_progress :: "WorkflowStatus option \<Rightarrow> int" where
  "display_progress ws = (case ws of None \<Rightarrow> 0 | Some w \<Rightarrow> wf_progress w)"

definition display_title :: "WorkflowStatus option \<Rightarrow> string" where
  "display_title ws =
     (case ws of
        None \<Rightarrow> ''Research Workflow''
      | Some w \<Rightarrow> if wf_title w = [] then ''Research Workflow'' else wf_title w)"

text \<open>
  The three returns of the component, in their order: the placeholder while streaming,
  the error view when \<^verbatim>\<open>error && !workflowStatus\<close> (an empty message is falsy), and
  the main view. The Cancel button is drawn when the shown status is \<^verbatim>\<open>running\<close>, the
  Retry buttons when it is \<^verbatim>\<open>failed\<close>. The main view maps over the steps; when a row
  throws, the render of the component throws (\<open>Crashed\<close>) and nothing of it is drawn.
\<close>

definition main_view :: "inputs \<Rightarrow> executor \<Rightarrow> tracker" where
  "main_view p s =
     (let ws = workflowStatus s
      in \<lparr>shown_title = display_title ws, shown_status = display_status ws,
          shown_progress = display_progress ws,
          shown_header = progress_header ws (initialSteps p),
          shown_steps = derive_steps ws (initialSteps p),
          cancel_button = (display_status ws = ''running''),
          retry_button = (display_status ws = ''failed'')\<rparr>)"

definition draw_main :: "inputs \<Rightarrow> executor \<Rightarrow> view" where
  "draw_main p s =
     (if list_ex row_throws (shown_steps (main_view p s)) then Crashed
      else Tracker (main_view p s))"

definition render :: "inputs \<Rightarrow> executor \<Rightarrow> view" where
  "render p s =
     (if isStreaming p then Preparing
      else case error s of
             None \<Rightarrow> draw_main p s
           | Some msg \<Rightarrow>
               if msg \<noteq> [] \<and> workflowStatus s = None then LoadFailed msg
               else draw_main p s)"

fun cancel_shown :: "view \<Rightarrow> bool" where
  "cancel_shown (Tracker t) = cancel_button t"
| "cancel_shown _ = False"

fun retry_shown :: "view \<Rightarrow> bool" where
  "retry_shown (Tracker t) = retry_button t"
| "retry_shown _ = False"

fun error_retry_shown :: "view \<Rightarrow> bool" where
  "error_retry_shown (LoadFailed _) = True"
| "error_retry_shown _ = False"

fun is_tracker :: "view \<Rightarrow> bool" where
  "is_tracker (Tracker _) = True"
| "is_tracker _ = False"

section \<open>WorkflowExecutor: the event loop\<close>

text \<open>
  The component runs on a single-threaded event loop. One event is: a render with new
  inputs (a prop or the stream status changed); an interval timer firing; the promise of
  a request settling; a click on a button. A click is possible only on a button that is
  drawn, a timer fires only while it is active, and a promise settles once. After the
  handler of an event React renders again and runs the effect if a dependency changed
  (\<open>commit\<close>); the handler and that commit are one step, with no other event between
  them. An \<^verbatim>\<open>await\<close> splits a handler in two: the code before it runs with the click,
  the code after it when the promise settles, with the workflow id the handler captured.
  The events are those of a mounted component; unmounting is not among them. What React
  does with a component whose render throws (it unmounts it, which runs the cleanup of
  the effect) is decided outside the component: the loop below keeps the state of the
  hooks, and no button can be clicked in a view that was not drawn.
\<close>

datatype event =
    Render inputs
  | Tick nat
  | StatusSettled nat "WorkflowStatus option response"
  | CancelSettled nat "unit response"
  | RetrySettled nat "unit response"
  | ClickCancel
  | ClickRetry
  | ClickErrorRetry
  | ClickStep int

definition pending_request :: "executor \<Rightarrow> nat \<Rightarrow> request option" where
  "pending_request s n =
     (if n < length (network s) \<and> n \<notin> set (settled s) then Some (network s ! n) else None)"

fun handle :: "event \<Rightarrow> inputs \<times> executor \<Rightarrow> inputs \<times> executor" where
  "handle (Render p') (p, s) = (p', s)"
| "handle (Tick t) (p, s) =
     (case map_of (timers s) t of
        Some wid \<Rightarrow> (p, fetchStatus FromTimer wid s)
      | None \<Rightarrow> (p, s))"
| "handle (StatusSettled n r) (p, s) =
     (case pending_request s n of
        Some (GetStatus org wid) \<Rightarrow> (p, fetchStatus_resume r (s\<lparr>settled := n # settled s\<rparr>))
      | _ \<Rightarrow> (p, s))"
| "handle (CancelSettled n r) (p, s) =
     (case pending_request s n of
        Some (PostCancel wid) \<Rightarrow> (p, handleCancel_resume wid r (s\<lparr>settled := n # settled s\<rparr>))
      | _ \<Rightarrow> (p, s))"
| "handle (RetrySettled n r) (p, s) =
     (case pending_request s n of
        Some (PostRetry wid) \<Rightarrow> (p, handleRetry_resume wid r (s\<lparr>settled := n # settled s\<rparr>))
      | _ \<Rightarrow> (p, s))"
| "handle ClickCancel (p, s) =
     (if cancel_shown (render p s) then (p, handleCancel (workflowId p) s) else (p, s))"
| "handle ClickRetry (p, s) =
     (if retry_shown (render p s) then (p, handleRetry (workflowId p) s) else (p, s))"
| "handle ClickErrorRetry (p, s) =
     (if error_retry_shown (render p s) then (p, fetchStatus FromErrorButton (workflowId p) s)
      else (p, s))"
| "handle (ClickStep i) (p, s) =
     (if is_tracker (render p s)
      then (p, s\<lparr>expandedStep := (if expandedStep s = Some i then None else Some i)\<rparr>)
      else (p, s))"

definition step :: "event \<Rightarrow> inputs \<times> executor \<Rightarrow> inputs \<times> executor" where
  "step e st = (case handle e st of (p, s) \<Rightarrow> (p, commit p s))"

primrec run :: "event list \<Rightarrow> inputs \<times> executor \<Rightarrow> inputs \<times> executor" where
  "run [] st = st"
| "run (e # es) st = run es (step e st)"

text \<open>The component is mounted: first render and first run of the effect.\<close>

definition mount :: "inputs \<Rightarrow> inputs \<times> executor" where
  "mount p = (p, commit p init)"

text \<open>
  The state of the timer after a commit: the effect ran for the current dependencies,
  and an active timer is the single one held by \<^verbatim>\<open>intervalRef\<close>, with a cleanup
  function registered to clear it.
\<close>

definition committed :: "inputs \<times> executor \<Rightarrow> bool" where
  "committed st =
     (case st of (p, s) \<Rightarrow>
        effect_deps s = Some (isStreaming p, workflowId p, polling s) \<and>
        (case timers s of
           [] \<Rightarrow> True
         | (t, w) # rest \<Rightarrow>
             rest = [] \<and> intervalRef s = Some t \<and> t \<noteq> 0 \<and> has_cleanup s \<and> polling s \<and>
             \<not> isStreaming p \<and> workflowId p \<noteq> [] \<and> w = workflowId p))"

section \<open>WorkflowLibrary: state and operations\<close>

text \<open>
  The requests of the library view. The handler of a deletion closes over the list
  \<^verbatim>\<open>safeWorkflows\<close> of the render it was created in, so the request carries that list
  for the code that runs after the \<^verbatim>\<open>await\<close>.
\<close>

datatype lib_request =
    GetList
  | DeleteWorkflow string "WorkflowSummary list"
  | CancelWorkflow string
  | RetryWorkflow string

fun is_load :: "lib_request \<Rightarrow> bool" where
  "is_load GetList = True"
| "is_load _ = False"

text \<open>
  The state cell \<^verbatim>\<open>workflows\<close>, the cell \<^verbatim>\<open>loading\<close>, the two refs and the dialog
  cell; then the requests sent so far (\<open>issued\<close>), the requests whose promise has not
  settled yet (\<open>in_flight\<close>, oldest first) and the console.
\<close>

record library =
  workflows :: "WorkflowSummary list"
  loading :: bool
  hasLoadedRef :: bool
  isLoadingRef :: bool
  confirmDialog :: "(string \<times> string) option"
  issued :: "lib_request list"
  in_flight :: "lib_request list"
  lib_console :: "string list"

definition lib_init :: "WorkflowSummary list \<Rightarrow> library" where
  "lib_init initialWorkflows =
     \<lparr>workflows = initialWorkflows, loading = False, hasLoadedRef = False,
      isLoadingRef = False, confirmDialog = None, issued = [], in_flight = [],
      lib_console = []\<rparr>"

definition send :: "lib_request \<Rightarrow> library \<Rightarrow> library" where
  "send r s = s\<lparr>issued := issued s @ [r], in_flight := in_flight s @ [r]\<rparr>"

text \<open>
  \<^verbatim>\<open>loadWorkflows\<close> up to its \<^verbatim>\<open>await\<close>: the guard on \<^verbatim>\<open>isLoadingRef\<close> returns
  before the \<^verbatim>\<open>try\<close> block, so a call that is turned away touches nothing.
\<close>

definition loadWorkflows :: "library \<Rightarrow> library" where
  "loadWorkflows s =
     (if isLoadingRef s then s
      else send GetList (s\<lparr>isLoadingRef := True, loading := True\<rparr>))"

text \<open>
  \<^verbatim>\<open>loadWorkflows\<close> after its \<^verbatim>\<open>await\<close>. The body of the list response is the
  \<^verbatim>\<open>workflows\<close> field of the JSON object, which may be missing
  (\<^verbatim>\<open>data.workflows || []\<close>). The \<^verbatim>\<open>finally\<close> block runs on every path.
\<close>

definition loadWorkflows_resume ::
  "WorkflowSummary list option response \<Rightarrow> library \<Rightarrow> library" where
  "loadWorkflows_resume r s =
     (let s1 = (case r of
                  Rejected msg \<Rightarrow>
                    s\<lparr>lib_console := lib_console s @ [''Failed to load workflows: '' @ msg]\<rparr>
                | Responded ok b \<Rightarrow>
                    if \<not> ok then s
                    else (case b of
                            Unparsable msg \<Rightarrow>
                              s\<lparr>lib_console :=
                                  lib_console s @ [''Failed to load workflows: '' @ msg]\<rparr>
                          | Json data \<Rightarrow>
                              s\<lparr>workflows := (case data of Some ws \<Rightarrow> ws | None \<Rightarrow> []),
                                hasLoadedRef := True\<rparr>))
      in s1\<lparr>loading := False, isLoadingRef := False\<rparr>)"

text \<open>The effect with the empty dependency list: it runs once, when the view mounts.\<close>

definition lib_mount_effect :: "library \<Rightarrow> library" where
  "lib_mount_effect s =
     (if \<not> hasLoadedRef s \<and> \<not> isLoadingRef s then loadWorkflows s else s)"

definition handleRefresh :: "library \<Rightarrow> library" where
  "handleRefresh s = loadWorkflows (s\<lparr>hasLoadedRef := False\<rparr>)"

text \<open>
  \<^verbatim>\<open>handleDeleteWorkflow\<close>: before the \<^verbatim>\<open>await\<close> it sends the DELETE; after it, a
  response that is ok replaces the list by the captured list without the workflow, a
  response that is not ok does nothing, and a rejected request is logged.
\<close>

definition handleDeleteWorkflow :: "string \<Rightarrow> library \<Rightarrow> library" where
  "handleDeleteWorkflow wid s = send (DeleteWorkflow wid (workflows s)) s"

definition handleDeleteWorkflow_resume ::
  "string \<Rightarrow> WorkflowSummary list \<Rightarrow> unit response \<Rightarrow> library \<Rightarrow> library" where
  "handleDeleteWorkflow_resume wid safeWorkflows r s =
     (case r of
        Rejected msg \<Rightarrow> s\<lparr>lib_console := lib_console s @ [''Delete workflow error: '' @ msg]\<rparr>
      | Responded ok b \<Rightarrow>
          if ok then s\<lparr>workflows := filter (\<lambda>w. sm_id w \<noteq> wid) safeWorkflows\<rparr> else s)"

definition handleCancelWorkflow :: "string \<Rightarrow> library \<Rightarrow> library" where
  "handleCancelWorkflow wid s = send (CancelWorkflow wid) s"

definition handleCancelWorkflow_resume :: "unit response \<Rightarrow> library \<Rightarrow> library" where
  "handleCancelWorkflow_resume r s =
     (case r of
        Rejected msg \<Rightarrow> s\<lparr>lib_console := lib_console s @ [''Cancel workflow error: '' @ msg]\<rparr>
      | Responded ok b \<Rightarrow> handleRefresh s)"

definition handleRetryWorkflow :: "string \<Rightarrow> library \<Rightarrow> library" where
  "handleRetryWorkflow wid s = send (RetryWorkflow wid) s"

definition handleRetryWorkflow_resume :: "unit response \<Rightarrow> library \<Rightarrow> library" where
  "handleRetryWorkflow_resume r s =
     (case r of
        Rejected msg \<Rightarrow> s\<lparr>lib_console := lib_console s @ [''Retry workflow error: '' @ msg]\<rparr>
      | Responded ok b \<Rightarrow> handleRefresh s)"

section \<open>WorkflowLibrary: the event loop\<close>

text \<open>
  The three buckets are filters of the one list, recomputed at every render.
\<close>

definition activeWorkflows :: "library \<Rightarrow> WorkflowSummary list" where
  "activeWorkflows s =
     filter (\<lambda>w. sm_status w = ''running'' \<or> sm_status w = ''pending'') (workflows s)"

definition completedWorkflows :: "library \<Rightarrow> WorkflowSummary list" where
  "completedWorkflows s = filter (\<lambda>w. sm_status w = ''completed'') (workflows s)"

definition failedWorkflows :: "library \<Rightarrow> WorkflowSummary list" where
  "failedWorkflows s = filter (\<lambda>w. sm_status w = ''failed'') (workflows s)"

text \<open>
  The events of the view: the refresh button (disabled while \<^verbatim>\<open>loading\<close>), the
  Cancel button of an active card, the Retry button of a failed card, the delete button
  of a completed or failed card (it opens the dialog), the two buttons of the dialog,
  and a promise settling. \<open>Settled i r\<close> settles the request at position \<open>i\<close> of
  \<open>in_flight\<close>; a response to a command or a deletion carries no body the code reads,
  so its body is ignored.
\<close>

datatype lib_event =
    ClickRefresh
  | ClickCancelWorkflow string
  | ClickRetryWorkflow string
  | ClickDelete string
  | DialogClose
  | DialogConfirm
  | Settled nat "WorkflowSummary list option response"

definition without_body :: "'a response \<Rightarrow> unit response" where
  "without_body r =
     (case r of Rejected msg \<Rightarrow> Rejected msg | Responded ok b \<Rightarrow> Responded ok (Json ()))"

definition drop_nth :: "nat \<Rightarrow> 'a list \<Rightarrow> 'a list" where
  "drop_nth i xs = take i xs @ drop (Suc i) xs"

fun lib_resume :: "lib_request \<Rightarrow> WorkflowSummary list option response \<Rightarrow> library \<Rightarrow> library" where
  "lib_resume GetList r s = loadWorkflows_resume r s"
| "lib_resume (DeleteWorkflow wid safeWorkflows) r s =
     handleDeleteWorkflow_resume wid safeWorkflows (without_body r) s"
| "lib_resume (CancelWorkflow wid) r s = handleCancelWorkflow_resume (without_body r) s"
| "lib_resume (RetryWorkflow wid) r s = handleRetryWorkflow_resume (without_body r) s"

fun lib_step :: "lib_event \<Rightarrow> library \<Rightarrow> library" where
  "lib_step ClickRefresh s = (if loading s then s else handleRefresh s)"
| "lib_step (ClickCancelWorkflow wid) s =
     (if wid \<in> sm_id ` set (activeWorkflows s) then handleCancelWorkflow wid s else s)"
| "lib_step (ClickRetryWorkflow wid) s =
     (if wid \<in> sm_id ` set (failedWorkflows s) then handleRetryWorkflow wid s else s)"
| "lib_step (ClickDelete wid) s =
     (case find (\<lambda>w. sm_id w = wid) (completedWorkflows s @ failedWorkflows s) of
        Some w \<Rightarrow> s\<lparr>confirmDialog := Some (sm_id w, sm_title w)\<rparr>
      | None \<Rightarrow> s)"
| "lib_step DialogClose s = s\<lparr>confirmDialog := None\<rparr>"
| "lib_step DialogConfirm s =
     (case confirmDialog s of
        Some (wid, title) \<Rightarrow> handleDeleteWorkflow wid s
      | None \<Rightarrow> s)"
| "lib_step (Settled i r) s =
     (if i < length (in_flight s)
      then lib_resume (in_flight s ! i) r (s\<lparr>in_flight := drop_nth i (in_flight s)\<rparr>)
      else s)"

primrec lib_run :: "lib_event list \<Rightarrow> library \<Rightarrow> library" where
  "lib_run [] s = s"
| "lib_run (e # es) s = lib_run es (lib_step e s)"

definition lib_mount :: "WorkflowSummary list \<Rightarrow> library" where
  "lib_mount initialWorkflows = lib_mount_effect (lib_init initialWorkflows)"

definition loads_in_flight :: "library \<Rightarrow> nat" where
  "loads_in_flight s = length (filter is_load (in_flight s))"

section \<open>Invariants and example data\<close>

text \<open>
  Between the handler of an event and the commit that follows it, the dependencies stored
  with the effect may be out of date, but an active timer is still the single one the
  ref and the cleanup function know.
\<close>

definition pre_commit :: "executor \<Rightarrow> bool" where
  "pre_commit s =
     (case timers s of
        [] \<Rightarrow> True
      | (t, w) # rest \<Rightarrow>
          rest = [] \<and> intervalRef s = Some t \<and> t \<noteq> 0 \<and> has_cleanup s \<and>
          effect_deps s = Some (False, w, True) \<and> w \<noteq> [])"

text \<open>Only requests that were sent have settled.\<close>

definition settled_sent :: "executor \<Rightarrow> bool" where
  "settled_sent s = list_all (\<lambda>n. n < length (network s)) (settled s)"

fun is_retry_settled :: "event \<Rightarrow> bool" where
  "is_retry_settled (RetrySettled _ _) = True"
| "is_retry_settled _ = False"

text \<open>
  A workflow of five steps, one per step type, used for the concrete runs below.
\<close>

definition example_step :: "int \<Rightarrow> string \<Rightarrow> string \<Rightarrow> StepStatus" where
  "example_step i ty st =
     \<lparr>step_index = i, step_type = ty, step_title = ty, step_description = None,
      step_status = st, step_error = None, step_durationMs = None, step_hasOutput = None\<rparr>"

definition example_steps :: "string list \<Rightarrow> StepStatus list" where
  "example_steps sts =
     map (\<lambda>(i, ty, st). example_step i ty st)
       (zip [0, 1, 2, 3, 4] (zip known_vocabulary sts))"

definition example_status :: "string \<Rightarrow> int \<Rightarrow> int \<Rightarrow> string list \<Rightarrow> WorkflowStatus" where
  "example_status st cur prog sts =
     \<lparr>wf_workflowId = ''wf_1'', wf_title = ''Compare frameworks'', wf_description = None,
      wf_query = ''frameworks'', wf_status = st, wf_currentStep = cur, wf_totalSteps = 5,
      wf_progress = prog, wf_steps = example_steps sts, wf_outputFormat = None,
      wf_errorMessage = None, wf_failedStep = None, wf_reportId = None,
      wf_reportTitle = None, wf_createdAt = ''2025-01-01T00:00:00Z'', wf_completedAt = None\<rparr>"

definition wf_1 :: inputs where
  "wf_1 = \<lparr>isStreaming = False, workflowId = ''wf_1'', initialSteps = None\<rparr>"

definition running_1 :: WorkflowStatus where
  "running_1 = example_status ''running'' 1 20
                 [''completed'', ''running'', ''pending'', ''pending'', ''pending'']"

definition running_2 :: WorkflowStatus where
  "running_2 = example_status ''running'' 2 40
                 [''completed'', ''completed'', ''running'', ''pending'', ''pending'']"

definition running_2_late :: WorkflowStatus where
  "running_2_late = example_status ''running'' 2 40
                      [''completed'', ''completed'', ''completed'', ''pending'', ''pending'']"

definition failed_1 :: WorkflowStatus where
  "failed_1 = example_status ''failed'' 1 20
                [''completed'', ''failed'', ''pending'', ''pending'', ''pending'']"

definition completed_5 :: WorkflowStatus where
  "completed_5 = example_status ''completed'' 5 100
                   [''completed'', ''completed'', ''completed'', ''completed'', ''completed'']"

definition summary_1 :: WorkflowSummary where
  "summary_1 =
     \<lparr>sm_id = ''wf_1'', sm_title = ''Compare frameworks'', sm_description = None,
      sm_query = ''frameworks'', sm_status = ''failed'', sm_currentStep = 2, sm_totalSteps = 5,
      sm_sources = [''google''], sm_outputFormat = ''comparison'', sm_errorMessage = None,
      sm_createdAt = ''2025-01-01T00:00:00Z'', sm_completedAt = None, sm_report = None\<rparr>"

definition summary_2 :: WorkflowSummary where
  "summary_2 = summary_1\<lparr>sm_id := ''wf_2'', sm_status := ''running''\<rparr>"

definition streaming_1 :: inputs where
  "streaming_1 = wf_1\<lparr>isStreaming := True\<rparr>"

definition no_id :: inputs where
  "no_id = wf_1\<lparr>workflowId := []\<rparr>"

text \<open>
  States of the executor reached by short runs: polling with two requests in flight;
  showing a running workflow; settled on a failed workflow; streaming again with two
  requests in flight.
\<close>

definition polling_1 :: executor where
  "polling_1 = snd (run [Tick 1] (mount wf_1))"

definition tracking_1 :: executor where
  "tracking_1 = snd (run [StatusSettled 0 (Responded True (Json (Some running_1)))] (mount wf_1))"

definition settled_failed :: executor where
  "settled_failed = snd (run [StatusSettled 0 (Responded True (Json (Some failed_1)))] (mount wf_1))"

definition gated_1 :: executor where
  "gated_1 = snd (run [Tick 1, Render streaming_1] (mount wf_1))"

text \<open>A library with two entries and the delete dialog open on the first.\<close>

definition dialog_open :: library where
  "dialog_open =
     lib_run [Settled 0 (Responded True (Json (Some [summary_1, summary_2]))),
              ClickDelete ''wf_1''] (lib_mount [])"

text \<open>
  The part of the executor's state that the user sees or that drives polling.
\<close>

definition local_state ::
  "executor \<Rightarrow> WorkflowStatus option \<times> bool \<times> string option \<times> (nat \<times> string) list" where
  "local_state s = (workflowStatus s, polling s, error s, timers s)"


fun is_cancel_event :: "event \<Rightarrow> bool" where
  "is_cancel_event ClickCancel = True"
| "is_cancel_event (CancelSettled _ _) = True"
| "is_cancel_event _ = False"

text \<open>A status request sent by the effect or by the timer carries a workflow id.\<close>

fun polled_with_id :: "request \<Rightarrow> bool" where
  "polled_with_id (GetStatus FromEffect w) = (w \<noteq> [])"
| "polled_with_id (GetStatus FromTimer w) = (w \<noteq> [])"
| "polled_with_id _ = True"

fun is_ok :: "'a response \<Rightarrow> bool" where
  "is_ok (Responded ok _) = ok"
| "is_ok (Rejected _) = False"

text \<open>The ref \<^verbatim>\<open>isLoadingRef\<close> is set exactly while one list request is in flight.\<close>

definition one_load :: "library \<Rightarrow> bool" where
  "one_load s = (loads_in_flight s = (if isLoadingRef s then 1 else 0))"

lemmas example_defs =
  wf_1_def running_1_def running_2_def running_2_late_def failed_1_def completed_5_def
  example_status_def example_steps_def example_step_def known_vocabulary_def
  summary_1_def summary_2_def streaming_1_def no_id_def

lemmas example_state_defs =
  polling_1_def tracking_1_def settled_failed_def gated_1_def

lemmas library_defs =
  dialog_open_def lib_mount_def lib_mount_effect_def lib_init_def loadWorkflows_def
  loadWorkflows_resume_def send_def handleRefresh_def handleDeleteWorkflow_def
  handleDeleteWorkflow_resume_def handleCancelWorkflow_def handleCancelWorkflow_resume_def
  handleRetryWorkflow_def handleRetryWorkflow_resume_def drop_nth_def without_body_def
  activeWorkflows_def completedWorkflows_def failedWorkflows_def loads_in_flight_def Let_def

lemmas executor_defs =
  mount_def init_def step_def commit_def effect_def cleanup_def setInterval_def
  fetchStatus_def fetchStatus_resume_def is_terminal_def pending_request_def
  handleCancel_def handleCancel_resume_def handleRetry_def handleRetry_resume_def
  render_def draw_main_def main_view_def display_status_def derive_steps_def
  row_throws_def draw_row_def draw_StepIcon_def draw_StatusIcon_def step_affordance_def
  StepIcon_def StatusInfo_def js_get_def stepIcons_def statusIcons_def Object_prototype_def
  null_status_message_def Let_def

section \<open>The step renderer falls back to the document icon\<close>

lemma StepIcon_fallback:
  "ty \<notin> set known_vocabulary \<Longrightarrow> ty \<notin> set Object_prototype \<Longrightarrow> StepIcon ty = Own FileText"
  by (simp add: StepIcon_def js_get_def stepIcons_def known_vocabulary_def)

lemma StepIcon_known:
  "ty \<in> set known_vocabulary \<Longrightarrow> \<exists>i. StepIcon ty = Own i"
  by (auto simp: StepIcon_def js_get_def stepIcons_def known_vocabulary_def)

text \<open>
  C8. For a step type outside the known vocabulary the renderer is meant to select the
  \<^verbatim>\<open>FileText\<close> icon. It does so for every type that is not the name of a member of
  \<^verbatim>\<open>Object.prototype\<close> (lemma \<open>StepIcon_fallback\<close>). For the type \<^verbatim>\<open>constructor\<close>,
  which is outside the vocabulary, the read \<^verbatim>\<open>stepIcons[step.type]\<close> finds the
  inherited member, which is truthy, so the fallback is not taken and the row is given a
  value that is no icon (rendering it throws, see \<open>draw_StepIcon\<close>).
\<close>

theorem StepIcon_constructor_not_FileText:
  "''constructor'' \<notin> set known_vocabulary \<and>
   StepIcon ''constructor'' = Inherited ''constructor'' \<and>
   StepIcon ''constructor'' \<noteq> Own FileText"
  by (simp add: StepIcon_def js_get_def stepIcons_def known_vocabulary_def Object_prototype_def)

section \<open>The progress header\<close>

lemma progress_header_cached:
  "progress_header (Some w) ini =
     (min (completedCount (wf_steps w) + 1) (length (wf_steps w)), length (wf_steps w))"
  by (simp add: progress_header_def derive_steps_def Let_def)

text \<open>
  C2. The header of the executor is computed from the steps of the payload,
  not from its fields \<^verbatim>\<open>currentStep\<close> and \<^verbatim>\<open>totalSteps\<close>: it shows
  \<open>min (completed steps + 1) (number of steps)\<close> of \<open>number of steps\<close>. When the payload
  has as many steps as \<^verbatim>\<open>totalSteps\<close> says and exactly \<^verbatim>\<open>currentStep\<close> of them are
  completed, with \<^verbatim>\<open>currentStep < totalSteps\<close>, the header shows
  \<^verbatim>\<open>currentStep + 1\<close> of \<^verbatim>\<open>totalSteps\<close>; for \<^verbatim>\<open>currentStep = 2\<close> and
  \<^verbatim>\<open>totalSteps = 5\<close> that is "3 of 5". The card of the library view shows
  \<^verbatim>\<open>currentStep + 1\<close> of \<^verbatim>\<open>totalSteps\<close> for every entry.
\<close>

theorem progress_header_from_steps:
  "shown_header (main_view p s) = progress_header (workflowStatus s) (initialSteps p) \<and>
   progress_header (Some w) ini =
     (min (completedCount (wf_steps w) + 1) (length (wf_steps w)), length (wf_steps w)) \<and>
   (int (length (wf_steps w)) = wf_totalSteps w \<and>
    int (completedCount (wf_steps w)) = wf_currentStep w \<and>
    wf_currentStep w < wf_totalSteps w \<longrightarrow>
      int (fst (progress_header (Some w) ini)) = wf_currentStep w + 1 \<and>
      int (snd (progress_header (Some w) ini)) = wf_totalSteps w) \<and>
   library_step_label v = (sm_currentStep v + 1, sm_totalSteps v)"
  by (auto simp: progress_header_cached main_view_def library_step_label_def Let_def)

theorem progress_header_from_steps_witness:
  "int (length (wf_steps running_2)) = wf_totalSteps running_2 \<and>
   int (completedCount (wf_steps running_2)) = wf_currentStep running_2 \<and>
   wf_currentStep running_2 < wf_totalSteps running_2 \<and>
   wf_totalSteps running_2 = 5 \<and> wf_currentStep running_2 = 2 \<and>
   progress_header (Some running_2) None = (3, 5)"
proof -
  have h: "int (length (wf_steps running_2)) = wf_totalSteps running_2 \<and>
           int (completedCount (wf_steps running_2)) = wf_currentStep running_2 \<and>
           wf_currentStep running_2 < wf_totalSteps running_2"
    by (simp add: example_defs completedCount_def)
  have v: "wf_totalSteps running_2 = 5 \<and> wf_currentStep running_2 = 2"
    by (simp add: example_defs)
  from progress_header_from_steps[of wf_1 init running_2 None summary_1] h v
  have "int (fst (progress_header (Some running_2) None)) = 3 \<and>
        int (snd (progress_header (Some running_2) None)) = 5"
    by simp
  then have "progress_header (Some running_2) None = (3, 5)"
    by (cases "progress_header (Some running_2) None") simp
  with h v show ?thesis by simp
qed

text \<open>
  The header does not follow \<^verbatim>\<open>currentStep\<close> in general: a payload with \<^verbatim>\<open>totalSteps = 5\<close> and
  \<^verbatim>\<open>currentStep = 2\<close> whose third step is already marked completed is shown as
  "4 of 5".
\<close>

theorem progress_header_counterexample:
  "wf_totalSteps running_2_late = 5 \<and> wf_currentStep running_2_late = 2 \<and>
   progress_header (Some running_2_late) None = (4, 5)"
  by (simp add: example_defs progress_header_def derive_steps_def completedCount_def Let_def)

section \<open>WorkflowExecutor: the timer is held by the effect\<close>

lemma committed_pre_commit: "committed (p, s) \<Longrightarrow> pre_commit s"
  by (auto simp: committed_def pre_commit_def split: list.splits)

lemma commit_committed: "pre_commit s \<Longrightarrow> committed (p, commit p s)"
  by (auto simp: committed_def pre_commit_def commit_def effect_def cleanup_def
      setInterval_def fetchStatus_def Let_def split: list.splits option.splits)

lemma handle_pre_commit:
  "pre_commit s \<Longrightarrow> pre_commit (snd (handle e (p, s)))"
  by (cases e)
    (auto simp: pre_commit_def fetchStatus_def fetchStatus_resume_def handleCancel_def
      handleCancel_resume_def handleRetry_def handleRetry_resume_def Let_def
      split: list.splits option.splits request.splits response.splits body.splits)

lemma step_committed: "committed st \<Longrightarrow> committed (step e st)"
proof -
  assume c: "committed st"
  obtain p s where st: "st = (p, s)" by (cases st)
  obtain p' s' where h: "handle e (p, s) = (p', s')" by (cases "handle e (p, s)")
  from c st have "pre_commit s" by (simp add: committed_pre_commit)
  then have "pre_commit (snd (handle e (p, s)))" by (rule handle_pre_commit)
  with h have "pre_commit s'" by simp
  then have "committed (p', commit p' s')" by (rule commit_committed)
  with st h show ?thesis by (simp add: step_def)
qed

lemma mount_committed: "committed (mount p)"
  unfolding mount_def by (rule commit_committed) (simp add: pre_commit_def init_def)

lemma run_committed: "committed st \<Longrightarrow> committed (run es st)"
  by (induction es arbitrary: st) (simp_all add: step_committed)

lemma reachable_committed: "run es0 (mount p0) = (p, s) \<Longrightarrow> committed (p, s)"
  using run_committed[OF mount_committed, of es0 p0] by simp

lemma committed_no_timer: "committed (p, s) \<Longrightarrow> \<not> polling s \<Longrightarrow> timers s = []"
  by (auto simp: committed_def split: list.splits)

subsection \<open>Settled requests were sent\<close>

lemma pending_request_sent: "pending_request s n = Some r \<Longrightarrow> n < length (network s)"
  by (simp add: pending_request_def split: if_splits)

lemma commit_settled_sent: "settled_sent s \<Longrightarrow> settled_sent (commit p s)"
  by (auto simp: settled_sent_def list_all_iff commit_def effect_def cleanup_def
      setInterval_def fetchStatus_def Let_def split: option.splits)

lemma handle_settled_sent: "settled_sent s \<Longrightarrow> settled_sent (snd (handle e (p, s)))"
  by (cases e)
    (auto simp: settled_sent_def list_all_iff fetchStatus_def fetchStatus_resume_def
      handleCancel_def handleCancel_resume_def handleRetry_def handleRetry_resume_def Let_def
      dest: pending_request_sent
      split: option.splits request.splits response.splits body.splits)

lemma step_settled_sent: "settled_sent (snd st) \<Longrightarrow> settled_sent (snd (step e st))"
proof -
  assume a: "settled_sent (snd st)"
  obtain p s where st: "st = (p, s)" by (cases st)
  obtain p' s' where h: "handle e (p, s) = (p', s')" by (cases "handle e (p, s)")
  from a st have "settled_sent (snd (handle e (p, s)))" by (simp add: handle_settled_sent)
  with h have "settled_sent (commit p' s')" by (simp add: commit_settled_sent)
  with st h show ?thesis by (simp add: step_def)
qed

lemma run_settled_sent: "settled_sent (snd st) \<Longrightarrow> settled_sent (snd (run es st))"
  by (induction es arbitrary: st) (simp_all add: step_settled_sent)

lemma mount_settled_sent: "settled_sent (snd (mount p))"
proof -
  have "settled_sent init" by (simp add: settled_sent_def init_def)
  then show ?thesis by (simp add: mount_def commit_settled_sent)
qed

lemma reachable_settled_sent: "run es0 (mount p0) = (p, s) \<Longrightarrow> settled_sent s"
  using run_settled_sent[OF mount_settled_sent, of es0 p0] by simp

lemma fresh_request_pending:
  "settled_sent s \<Longrightarrow>
   pending_request (s\<lparr>network := network s @ [r]\<rparr>) (length (network s)) = Some r"
  by (auto simp: settled_sent_def list_all_iff pending_request_def)

section \<open>A terminal status stops the polling\<close>

lemma commit_not_polling:
  "\<not> polling s \<Longrightarrow>
   \<not> polling (commit p s) \<and>
   filter timer_driven (network (commit p s)) = filter timer_driven (network s)"
  by (simp add: commit_def effect_def cleanup_def fetchStatus_def Let_def split: option.splits)

lemma handle_not_polling:
  "committed (p, s) \<Longrightarrow> \<not> polling s \<Longrightarrow> \<not> is_retry_settled e \<Longrightarrow>
   \<not> polling (snd (handle e (p, s))) \<and>
   filter timer_driven (network (snd (handle e (p, s)))) = filter timer_driven (network s)"
  by (cases e)
    (auto simp: committed_def fetchStatus_def fetchStatus_resume_def handleCancel_def
      handleCancel_resume_def handleRetry_def Let_def
      split: list.splits option.splits request.splits response.splits body.splits)

lemma step_not_polling:
  assumes "committed st" "\<not> polling (snd st)" "\<not> is_retry_settled e"
  shows "\<not> polling (snd (step e st)) \<and>
         filter timer_driven (network (snd (step e st))) = filter timer_driven (network (snd st))"
proof -
  obtain p s where st: "st = (p, s)" by (cases st)
  obtain p' s' where h: "handle e (p, s) = (p', s')" by (cases "handle e (p, s)")
  from assms st have "\<not> polling (snd (handle e (p, s))) \<and>
    filter timer_driven (network (snd (handle e (p, s)))) = filter timer_driven (network s)"
    by (intro handle_not_polling) simp_all
  with h have a: "\<not> polling s'"
    and b: "filter timer_driven (network s') = filter timer_driven (network s)"
    by simp_all
  from a have "\<not> polling (commit p' s') \<and>
   filter timer_driven (network (commit p' s')) = filter timer_driven (network s')"
    by (rule commit_not_polling)
  with b st h show ?thesis by (simp add: step_def)
qed

lemma run_not_polling:
  "committed st \<Longrightarrow> \<not> polling (snd st) \<Longrightarrow> list_all (\<lambda>e. \<not> is_retry_settled e) es \<Longrightarrow>
   \<not> polling (snd (run es st)) \<and>
   filter timer_driven (network (snd (run es st))) = filter timer_driven (network (snd st))"
proof (induction es arbitrary: st)
  case Nil
  then show ?case by simp
next
  case (Cons e es)
  from Cons.prems have e: "\<not> is_retry_settled e"
    and es: "list_all (\<lambda>e. \<not> is_retry_settled e) es"
    by simp_all
  from Cons.prems(1,2) e have s1: "\<not> polling (snd (step e st)) \<and>
         filter timer_driven (network (snd (step e st))) = filter timer_driven (network (snd st))"
    by (rule step_not_polling)
  have c1: "committed (step e st)" using Cons.prems(1) by (rule step_committed)
  from Cons.IH[OF c1 _ es] s1 show ?case by simp
qed

lemma terminal_settles:
  assumes "committed (p, s)" "pending_request s n = Some (GetStatus org wid)"
    "is_terminal (wf_status d)"
  shows "workflowStatus (snd (step (StatusSettled n (Responded True (Json (Some d)))) (p, s))) = Some d \<and>
         \<not> polling (snd (step (StatusSettled n (Responded True (Json (Some d)))) (p, s))) \<and>
         filter timer_driven (network (snd (step (StatusSettled n (Responded True (Json (Some d)))) (p, s))))
           = filter timer_driven (network s)"
  using assms
  by (simp add: step_def fetchStatus_resume_def commit_def effect_def cleanup_def
      fetchStatus_def Let_def split: option.splits)

text \<open>
  C1. In every state the mounted component can reach, when a pending status request
  resolves with a snapshot whose status is \<^verbatim>\<open>completed\<close> or \<^verbatim>\<open>failed\<close>, the handler
  and the commit that follows it (one turn of the event loop) store the snapshot, turn
  the polling flag off and clear the interval timer. From then on, through any sequence
  of events in which no retry command resolves, the flag stays off, no timer is active
  and no status request is sent by the timer.
\<close>

theorem terminal_status_stops_polling:
  assumes "run es0 (mount p0) = (p, s)"
    and "pending_request s n = Some (GetStatus org wid)"
    and "is_terminal (wf_status d)"
    and "list_all (\<lambda>e. \<not> is_retry_settled e) es"
  shows "let st1 = step (StatusSettled n (Responded True (Json (Some d)))) (p, s);
             st2 = run es st1
         in workflowStatus (snd st1) = Some d \<and>
            \<not> polling (snd st1) \<and> timers (snd st1) = [] \<and>
            \<not> polling (snd st2) \<and> timers (snd st2) = [] \<and>
            filter timer_driven (network (snd st2)) = filter timer_driven (network s)"
proof -
  define st1 where "st1 = step (StatusSettled n (Responded True (Json (Some d)))) (p, s)"
  define st2 where "st2 = run es st1"
  have c: "committed (p, s)" using assms(1) by (rule reachable_committed)
  have c1: "committed st1" unfolding st1_def using c by (rule step_committed)
  have c2: "committed st2" unfolding st2_def using c1 by (rule run_committed)
  from terminal_settles[OF c assms(2,3)]
  have a: "workflowStatus (snd st1) = Some d" and b: "\<not> polling (snd st1)"
    and t: "filter timer_driven (network (snd st1)) = filter timer_driven (network s)"
    by (simp_all add: st1_def)
  from run_not_polling[OF c1 b assms(4)]
  have b2: "\<not> polling (snd st2)"
    and t2: "filter timer_driven (network (snd st2)) = filter timer_driven (network (snd st1))"
    by (simp_all add: st2_def)
  have n1: "timers (snd st1) = []"
    using committed_no_timer[of "fst st1" "snd st1"] c1 b by simp
  have n2: "timers (snd st2) = []"
    using committed_no_timer[of "fst st2" "snd st2"] c2 b2 by simp
  from a b n1 b2 n2 t t2 show ?thesis
    unfolding Let_def st1_def[symmetric] st2_def[symmetric] by simp
qed

text \<open>
  An instance: the workflow \<^verbatim>\<open>wf_1\<close> is polled, the timer has fired once, and the
  timer's request resolves with a completed workflow; a further tick, a click and a
  render follow.
\<close>

theorem terminal_status_stops_polling_witness:
  "run [Tick 1] (mount wf_1) = (wf_1, polling_1) \<and>
   pending_request polling_1 1 = Some (GetStatus FromTimer ''wf_1'') \<and>
   is_terminal (wf_status completed_5) \<and>
   list_all (\<lambda>e. \<not> is_retry_settled e) [Tick 1, ClickRetry, Render wf_1] \<and>
   (let st1 = step (StatusSettled 1 (Responded True (Json (Some completed_5)))) (wf_1, polling_1);
        st2 = run [Tick 1, ClickRetry, Render wf_1] st1
    in workflowStatus (snd st1) = Some completed_5 \<and>
       \<not> polling (snd st1) \<and> timers (snd st1) = [] \<and>
       \<not> polling (snd st2) \<and> timers (snd st2) = [] \<and>
       filter timer_driven (network (snd st2)) = filter timer_driven (network polling_1))"
proof -
  have r: "run [Tick 1] (mount wf_1) = (wf_1, polling_1)"
    by (simp add: example_state_defs example_defs executor_defs)
  have h2: "pending_request polling_1 1 = Some (GetStatus FromTimer ''wf_1'')"
    by (simp add: example_state_defs example_defs executor_defs)
  have h3: "is_terminal (wf_status completed_5)"
    by (simp add: example_defs is_terminal_def)
  have h4: "list_all (\<lambda>e. \<not> is_retry_settled e) [Tick 1, ClickRetry, Render wf_1]"
    by simp
  from terminal_status_stops_polling[OF r h2 h3 h4] r h2 h3 h4 show ?thesis
    by blast
qed

section \<open>Retry\<close>

lemma retry_shown_not_streaming: "retry_shown (render p s) \<Longrightarrow> \<not> isStreaming p"
  by (auto simp: render_def split: if_splits)

lemma click_retry:
  assumes "committed (p, s)" "retry_shown (render p s)"
  shows "step ClickRetry (p, s) = (p, s\<lparr>network := network s @ [PostRetry (workflowId p)]\<rparr>)"
  using assms by (simp add: step_def handleRetry_def commit_def committed_def)

lemma retry_rejected:
  assumes "committed (p, s)" "settled_sent s"
  shows "step (RetrySettled (length (network s)) (Rejected msg))
           (p, s\<lparr>network := network s @ [PostRetry wid]\<rparr>)
         = (p, s\<lparr>network := network s @ [PostRetry wid],
                 settled := length (network s) # settled s,
                 console := console s @ [''Retry failed: '' @ msg]\<rparr>)"
  using assms fresh_request_pending[OF assms(2), of "PostRetry wid"]
  by (simp add: step_def handleRetry_resume_def commit_def committed_def)

text \<open>
  The handler does not read the response, so the same happens for every response,
  whatever \<^verbatim>\<open>response.ok\<close> is.
\<close>

lemma retry_resolved:
  assumes "committed (p, s)" "settled_sent s" "\<not> polling s" "\<not> isStreaming p"
    "workflowId p \<noteq> []"
  shows "snd (step (RetrySettled (length (network s)) (Responded ok b))
           (p, s\<lparr>network := network s @ [PostRetry (workflowId p)]\<rparr>))
         = s\<lparr>network := network s @ [PostRetry (workflowId p),
                   GetStatus FromHandler (workflowId p), GetStatus FromEffect (workflowId p)],
              settled := length (network s) # settled s,
              polling := True,
              effect_deps := Some (False, workflowId p, True),
              has_cleanup := True,
              intervalRef := Some (Suc (timer_seq s)),
              timers := [(Suc (timer_seq s), workflowId p)],
              timer_seq := Suc (timer_seq s)\<rparr>"
  using assms fresh_request_pending[OF assms(2), of "PostRetry (workflowId p)"]
    committed_no_timer[OF assms(1,3)]
  by (simp add: step_def handleRetry_resume_def commit_def committed_def fetchStatus_def
      effect_def cleanup_def setInterval_def Let_def split: option.splits)

text \<open>
  C3. Take a reachable state that shows the Retry button (the cached status is
  \<^verbatim>\<open>failed\<close> and the stream has settled), with the polling flag off and a workflow id.
  The click sends the POST to \<^verbatim>\<open>/api/workflows/{id}/retry\<close> and changes nothing else.
  If that request is rejected, one line is written to the console and the component
  stays settled. If it resolves with a success response, the polling flag is turned on,
  the handler sends a status request, and the effect, which runs again because the flag
  changed, sends its own initial status request and starts a new timer: two status
  requests follow the POST.
\<close>

theorem retry_restarts_polling:
  assumes "run es0 (mount p0) = (p, s)"
    and "retry_shown (render p s)" and "\<not> polling s" and "workflowId p \<noteq> []"
  shows "let wid = workflowId p; n = length (network s);
             s1 = s\<lparr>network := network s @ [PostRetry wid]\<rparr>
         in url (PostRetry wid) = ''/api/workflows/'' @ wid @ ''/retry'' \<and>
            step ClickRetry (p, s) = (p, s1) \<and>
            step (RetrySettled n (Rejected msg)) (p, s1) =
              (p, s1\<lparr>settled := n # settled s,
                      console := console s @ [''Retry failed: '' @ msg]\<rparr>) \<and>
            (let s2 = snd (step (RetrySettled n (Responded True b)) (p, s1))
             in polling s2 \<and> timers s2 = [(Suc (timer_seq s), wid)] \<and>
                workflowStatus s2 = workflowStatus s \<and>
                network s2 = network s @ [PostRetry wid, GetStatus FromHandler wid,
                                          GetStatus FromEffect wid])"
proof -
  have c: "committed (p, s)" using assms(1) by (rule reachable_committed)
  have ss: "settled_sent s" using assms(1) by (rule reachable_settled_sent)
  have ns: "\<not> isStreaming p" using assms(2) by (rule retry_shown_not_streaming)
  show ?thesis
    unfolding Let_def
    by (simp add: click_retry[OF c assms(2)] retry_rejected[OF c ss]
        retry_resolved[OF c ss assms(3) ns assms(4)])
qed

theorem retry_restarts_polling_witness:
  "run [StatusSettled 0 (Responded True (Json (Some failed_1)))] (mount wf_1) = (wf_1, settled_failed) \<and>
   retry_shown (render wf_1 settled_failed) \<and>
   \<not> polling settled_failed \<and>
   workflowId wf_1 \<noteq> [] \<and>
   (let wid = workflowId wf_1; n = length (network settled_failed);
        s1 = settled_failed\<lparr>network := network settled_failed @ [PostRetry wid]\<rparr>
    in url (PostRetry wid) = ''/api/workflows/'' @ wid @ ''/retry'' \<and>
       step ClickRetry (wf_1, settled_failed) = (wf_1, s1) \<and>
       step (RetrySettled n (Rejected ''Failed to fetch'')) (wf_1, s1) =
         (wf_1, s1\<lparr>settled := n # settled settled_failed,
                    console := console settled_failed @
                                 [''Retry failed: '' @ ''Failed to fetch'']\<rparr>) \<and>
       (let s2 = snd (step (RetrySettled n (Responded True (Json ()))) (wf_1, s1))
        in polling s2 \<and> timers s2 = [(Suc (timer_seq settled_failed), wid)] \<and>
           workflowStatus s2 = workflowStatus settled_failed \<and>
           network s2 = network settled_failed @
                          [PostRetry wid, GetStatus FromHandler wid,
                           GetStatus FromEffect wid]))"
proof -
  have r: "run [StatusSettled 0 (Responded True (Json (Some failed_1)))] (mount wf_1)
             = (wf_1, settled_failed)"
    by (simp add: example_state_defs example_defs executor_defs)
  have h2: "retry_shown (render wf_1 settled_failed)"
    by (simp add: example_state_defs example_defs executor_defs)
  have h3: "\<not> polling settled_failed"
    by (simp add: example_state_defs example_defs executor_defs)
  have h4: "workflowId wf_1 \<noteq> []" by (simp add: wf_1_def)
  from retry_restarts_polling[OF r h2 h3 h4, of "''Failed to fetch''" "Json ()"] r h2 h3 h4
  show ?thesis by blast
qed

text \<open>
  The whole traffic of one such run: the first request of the effect resolves with a
  failed workflow (the effect runs again and sends the second), the user clicks Retry and
  the POST resolves. Two status requests follow the POST, not one.
\<close>

theorem retry_sends_two_status_requests:
  "network (snd (run [StatusSettled 0 (Responded True (Json (Some failed_1))), ClickRetry,
                      RetrySettled 2 (Responded True (Json ()))] (mount wf_1)))
   = [GetStatus FromEffect ''wf_1'', GetStatus FromEffect ''wf_1'', PostRetry ''wf_1'',
      GetStatus FromHandler ''wf_1'', GetStatus FromEffect ''wf_1'']"
  by (simp add: example_defs executor_defs)

section \<open>Cancel\<close>

lemma cancel_event_frame:
  assumes "committed (p, s)" "is_cancel_event e"
  shows "fst (step e (p, s)) = p \<and> local_state (snd (step e (p, s))) = local_state s \<and>
         render p (snd (step e (p, s))) = render p s"
  using assms
  by (cases e)
    (auto simp: step_def committed_def commit_def local_state_def render_def draw_main_def
      main_view_def handleCancel_def handleCancel_resume_def fetchStatus_def
      split: option.splits request.splits response.splits)

lemma cancel_run_frame:
  "committed (p, s) \<Longrightarrow> list_all is_cancel_event es \<Longrightarrow>
   fst (run es (p, s)) = p \<and> local_state (snd (run es (p, s))) = local_state s \<and>
   render p (snd (run es (p, s))) = render p s"
proof (induction es arbitrary: s)
  case Nil
  then show ?case by simp
next
  case (Cons e es)
  from Cons.prems have e: "is_cancel_event e" and es: "list_all is_cancel_event es" by simp_all
  obtain s' where s': "step e (p, s) = (p, s')"
    using cancel_event_frame[OF Cons.prems(1) e] by (cases "step e (p, s)") simp
  have c': "committed (p, s')" using step_committed[OF Cons.prems(1), of e] s' by simp
  from cancel_event_frame[OF Cons.prems(1) e] s'
  have f: "local_state s' = local_state s" "render p s' = render p s" by simp_all
  from Cons.IH[OF c' es] f s' show ?case by simp
qed

lemma cancel_round_trip:
  assumes "committed (p, s)" "settled_sent s" "cancel_shown (render p s)"
  shows "network (snd (run [ClickCancel, CancelSettled (length (network s)) (Responded ok b)]
                         (p, s)))
         = network s @ [PostCancel (workflowId p), GetStatus FromHandler (workflowId p)]"
  using assms fresh_request_pending[OF assms(2), of "PostCancel (workflowId p)"]
  by (simp add: step_def handleCancel_def handleCancel_resume_def fetchStatus_def commit_def
      committed_def)

text \<open>
  The frame of the cancel handler. It leaves the cached status, the polling flag, the error and the
  timer as they are, before its \<^verbatim>\<open>await\<close> and after it, whatever the outcome of the
  POST: it sends the POST; when the POST resolves it sends exactly one status request;
  when the POST is rejected it writes one line to the console and sends nothing. Calling
  it twice changes none of the four either. In a reachable state, any sequence of clicks
  on Cancel and of settling cancel requests leaves the four and the rendered view
  unchanged, and a click followed by its response adds the POST and one status request to
  the traffic. The polling flag is only turned off by a fetched status that is terminal:
  a fetched status that is not terminal leaves it as it is.
\<close>

lemma cancel_frame:
  assumes "run es0 (mount p0) = (p, s)" and "list_all is_cancel_event es"
    and "\<not> is_terminal (wf_status d)" and "cancel_shown (render p s)"
  shows "local_state (handleCancel wid s') = local_state s' \<and>
         network (handleCancel wid s') = network s' @ [PostCancel wid] \<and>
         local_state (handleCancel_resume wid r s') = local_state s' \<and>
         network (handleCancel_resume wid (Responded ok b) s') =
           network s' @ [GetStatus FromHandler wid] \<and>
         network (handleCancel_resume wid (Rejected msg) s') = network s' \<and>
         console (handleCancel_resume wid (Rejected msg) s') =
           console s' @ [''Cancel failed: '' @ msg] \<and>
         local_state (handleCancel_resume wid r2 (handleCancel wid
                        (handleCancel_resume wid r1 (handleCancel wid s')))) = local_state s' \<and>
         fst (run es (p, s)) = p \<and>
         local_state (snd (run es (p, s))) = local_state s \<and>
         render p (snd (run es (p, s))) = render p s \<and>
         network (snd (run [ClickCancel, CancelSettled (length (network s)) (Responded ok b)]
                         (p, s)))
           = network s @ [PostCancel (workflowId p), GetStatus FromHandler (workflowId p)] \<and>
         polling (fetchStatus_resume (Responded True (Json (Some d))) s') = polling s'"
proof -
  have c: "committed (p, s)" using assms(1) by (rule reachable_committed)
  have ss: "settled_sent s" using assms(1) by (rule reachable_settled_sent)
  have h: "local_state (handleCancel wid s') = local_state s' \<and>
         network (handleCancel wid s') = network s' @ [PostCancel wid] \<and>
         local_state (handleCancel_resume wid r s') = local_state s' \<and>
         network (handleCancel_resume wid (Responded ok b) s') =
           network s' @ [GetStatus FromHandler wid] \<and>
         network (handleCancel_resume wid (Rejected msg) s') = network s' \<and>
         console (handleCancel_resume wid (Rejected msg) s') =
           console s' @ [''Cancel failed: '' @ msg] \<and>
         local_state (handleCancel_resume wid r2 (handleCancel wid
                        (handleCancel_resume wid r1 (handleCancel wid s')))) = local_state s'"
    by (simp add: local_state_def handleCancel_def handleCancel_resume_def fetchStatus_def
        split: response.splits)
  have k: "polling (fetchStatus_resume (Responded True (Json (Some d))) s') = polling s'"
    using assms(3) by (simp add: fetchStatus_resume_def Let_def)
  from h k cancel_run_frame[OF c assms(2)] cancel_round_trip[OF c ss assms(4)]
  show ?thesis by simp
qed

lemma cancel_frame_instance:
  "run [StatusSettled 0 (Responded True (Json (Some running_1)))] (mount wf_1) = (wf_1, tracking_1) \<and>
   list_all is_cancel_event
     [ClickCancel, CancelSettled 1 (Rejected ''Failed to fetch''), ClickCancel,
      CancelSettled 2 (Responded False (Json ()))] \<and>
   \<not> is_terminal (wf_status running_2) \<and>
   cancel_shown (render wf_1 tracking_1) \<and>
   local_state (handleCancel_resume ''wf_1'' (Responded False (Json ()))
                  (handleCancel ''wf_1''
                     (handleCancel_resume ''wf_1'' (Rejected ''Failed to fetch'')
                        (handleCancel ''wf_1'' settled_failed)))) = local_state settled_failed \<and>
   local_state (snd (run [ClickCancel, CancelSettled 1 (Rejected ''Failed to fetch''),
                          ClickCancel, CancelSettled 2 (Responded False (Json ()))]
                       (wf_1, tracking_1))) = local_state tracking_1 \<and>
   render wf_1 (snd (run [ClickCancel, CancelSettled 1 (Rejected ''Failed to fetch''),
                          ClickCancel, CancelSettled 2 (Responded False (Json ()))]
                       (wf_1, tracking_1))) = render wf_1 tracking_1 \<and>
   network (snd (run [ClickCancel,
                      CancelSettled (length (network tracking_1)) (Responded True (Json ()))]
                   (wf_1, tracking_1)))
     = network tracking_1 @ [PostCancel (workflowId wf_1), GetStatus FromHandler (workflowId wf_1)] \<and>
   polling (fetchStatus_resume (Responded True (Json (Some running_2))) settled_failed)
     = polling settled_failed"
proof -
  have r: "run [StatusSettled 0 (Responded True (Json (Some running_1)))] (mount wf_1)
             = (wf_1, tracking_1)"
    by (simp add: example_state_defs example_defs executor_defs)
  have h2: "list_all is_cancel_event
     [ClickCancel, CancelSettled 1 (Rejected ''Failed to fetch''), ClickCancel,
      CancelSettled 2 (Responded False (Json ()))]"
    by simp
  have h3: "\<not> is_terminal (wf_status running_2)"
    by (simp add: example_defs is_terminal_def)
  have h4: "cancel_shown (render wf_1 tracking_1)"
    by (simp add: example_state_defs example_defs executor_defs)
  from cancel_frame[OF r h2 h3 h4,
      of "''wf_1''" settled_failed "Responded False (Json ())" True "Json ()"
         "''Failed to fetch''" "Responded False (Json ())" "Rejected ''Failed to fetch''"]
    r h2 h3 h4
  show ?thesis by blast
qed

text \<open>
  C4. Cancel is meant to change nothing locally and to log a failed POST. The first part
  holds for every outcome of the POST (lemma \<open>cancel_frame\<close>). The second holds for a
  rejected request only: the handler never reads \<^verbatim>\<open>response.ok\<close>, which
  \<^verbatim>\<open>fetchStatus\<close>, \<^verbatim>\<open>loadWorkflows\<close> and \<^verbatim>\<open>handleDeleteWorkflow\<close> do read. With
  \<^verbatim>\<open>wf_1\<close> shown as running, a click on Cancel whose POST is answered with a status
  that is not ok writes nothing to the console and sends the status request that follows
  a successful cancel.
\<close>

theorem cancel_failure_not_logged:
  "cancel_shown (render wf_1 tracking_1) \<and>
   \<not> is_ok (Responded False (Json ()) :: unit response) \<and>
   console (snd (run [ClickCancel, CancelSettled 1 (Responded False (Json ()))]
                   (wf_1, tracking_1))) = console tracking_1 \<and>
   console tracking_1 = [] \<and>
   network (snd (run [ClickCancel, CancelSettled 1 (Responded False (Json ()))]
                   (wf_1, tracking_1)))
     = network tracking_1 @ [PostCancel ''wf_1'', GetStatus FromHandler ''wf_1'']"
  by (simp add: example_state_defs example_defs executor_defs)

section \<open>The gate on the stream status and the workflow id\<close>

lemma commit_polled:
  "list_all polled_with_id (network s) \<Longrightarrow> list_all polled_with_id (network (commit p s))"
  by (auto simp: commit_def effect_def cleanup_def setInterval_def fetchStatus_def Let_def
      split: option.splits)

lemma handle_polled:
  "committed (p, s) \<Longrightarrow> list_all polled_with_id (network s) \<Longrightarrow>
   list_all polled_with_id (network (snd (handle e (p, s))))"
  by (cases e)
    (auto simp: committed_def fetchStatus_def fetchStatus_resume_def handleCancel_def
      handleCancel_resume_def handleRetry_def handleRetry_resume_def Let_def
      split: list.splits option.splits request.splits response.splits body.splits if_splits)

lemma step_polled:
  assumes "committed st" "list_all polled_with_id (network (snd st))"
  shows "list_all polled_with_id (network (snd (step e st)))"
proof -
  obtain p s where st: "st = (p, s)" by (cases st)
  obtain p' s' where h: "handle e (p, s) = (p', s')" by (cases "handle e (p, s)")
  from assms st have "list_all polled_with_id (network (snd (handle e (p, s))))"
    by (intro handle_polled) simp_all
  with h have "list_all polled_with_id (network (commit p' s'))" by (simp add: commit_polled)
  with st h show ?thesis by (simp add: step_def)
qed

lemma run_polled:
  "committed st \<Longrightarrow> list_all polled_with_id (network (snd st)) \<Longrightarrow>
   list_all polled_with_id (network (snd (run es st)))"
  by (induction es arbitrary: st) (simp_all add: step_polled step_committed)

lemma mount_polled: "list_all polled_with_id (network (snd (mount p)))"
  by (simp add: mount_def init_def commit_def effect_def setInterval_def fetchStatus_def Let_def)

lemma gated_no_timer:
  "committed (p, s) \<Longrightarrow> isStreaming p \<or> workflowId p = [] \<Longrightarrow> timers s = []"
  by (auto simp: committed_def split: list.splits)

lemma gated_commit:
  "pre_commit s \<Longrightarrow> isStreaming p \<or> workflowId p = [] \<Longrightarrow>
   network (commit p s) = network s \<and> timers (commit p s) = []"
  by (auto simp: pre_commit_def commit_def effect_def cleanup_def Let_def
      split: option.splits list.splits)

lemma status_settled_handle:
  "\<exists>s'. handle (StatusSettled n r) (p, s) = (p, s') \<and> network s' = network s"
  by (auto simp: fetchStatus_resume_def Let_def
      split: option.splits request.splits response.splits body.splits)

text \<open>
  C5. Take a reachable state in which the stream has not settled or the workflow id is
  empty. No polling timer is active, and every status request that the effect or the
  timer has ever sent carried a workflow id. A timer event does nothing. The first render
  and any later render with inputs of that kind send no request and leave no timer
  active; a status request that settles in such a state, whatever it brings, makes the
  effect send nothing and start no timer. While the stream has not settled the
  placeholder is drawn, so none of the three buttons that call the status client or a
  command can be clicked. (What the cancel and retry handlers do once they run is not
  part of this statement: they do not look at the stream status or at the id.)
\<close>

theorem no_polling_while_gated:
  assumes "run es0 (mount p0) = (p, s)" and "isStreaming p \<or> workflowId p = []"
  shows "timers s = [] \<and>
         list_all polled_with_id (network s) \<and>
         step (Tick t) (p, s) = (p, s) \<and>
         (isStreaming p' \<or> workflowId p' = [] \<longrightarrow>
            network (snd (mount p')) = [] \<and> timers (snd (mount p')) = [] \<and>
            network (snd (step (Render p') (p, s))) = network s \<and>
            timers (snd (step (Render p') (p, s))) = []) \<and>
         network (snd (step (StatusSettled n r) (p, s))) = network s \<and>
         timers (snd (step (StatusSettled n r) (p, s))) = [] \<and>
         (isStreaming p \<longrightarrow>
            render p s = Preparing \<and> step ClickCancel (p, s) = (p, s) \<and>
            step ClickRetry (p, s) = (p, s) \<and> step ClickErrorRetry (p, s) = (p, s))"
proof -
  have c: "committed (p, s)" using assms(1) by (rule reachable_committed)
  have t: "timers s = []" using c assms(2) by (rule gated_no_timer)
  have pl: "list_all polled_with_id (network s)"
    using run_polled[OF mount_committed mount_polled, of es0 p0] assms(1) by simp
  have tick: "step (Tick t) (p, s) = (p, s)"
    using c t by (simp add: step_def commit_def committed_def)
  have rend: "isStreaming p' \<or> workflowId p' = [] \<longrightarrow>
            network (snd (mount p')) = [] \<and> timers (snd (mount p')) = [] \<and>
            network (snd (step (Render p') (p, s))) = network s \<and>
            timers (snd (step (Render p') (p, s))) = []"
  proof
    assume g: "isStreaming p' \<or> workflowId p' = []"
    have "pre_commit init" by (simp add: pre_commit_def init_def)
    from gated_commit[OF this g]
    have m: "network (snd (mount p')) = [] \<and> timers (snd (mount p')) = []"
      by (simp add: mount_def init_def)
    from gated_commit[OF committed_pre_commit[OF c] g] m
    show "network (snd (mount p')) = [] \<and> timers (snd (mount p')) = [] \<and>
            network (snd (step (Render p') (p, s))) = network s \<and>
            timers (snd (step (Render p') (p, s))) = []"
      by (simp add: step_def)
  qed
  have st: "network (snd (step (StatusSettled n r) (p, s))) = network s \<and>
         timers (snd (step (StatusSettled n r) (p, s))) = []"
  proof -
    obtain s' where h: "handle (StatusSettled n r) (p, s) = (p, s')"
      and nw: "network s' = network s"
      using status_settled_handle[of n r p s] by blast
    have pc: "pre_commit s'"
      using handle_pre_commit[OF committed_pre_commit[OF c], of "StatusSettled n r" p] h
      by simp
    from gated_commit[OF pc assms(2)] nw h show ?thesis by (simp add: step_def)
  qed
  have cl: "isStreaming p \<longrightarrow>
            render p s = Preparing \<and> step ClickCancel (p, s) = (p, s) \<and>
            step ClickRetry (p, s) = (p, s) \<and> step ClickErrorRetry (p, s) = (p, s)"
    using c by (simp add: render_def step_def commit_def committed_def)
  from t pl tick rend st cl show ?thesis by simp
qed

text \<open>
  An instance: \<^verbatim>\<open>wf_1\<close> was being polled, with two requests in flight, when the stream
  status went back to streaming.
\<close>

theorem no_polling_while_gated_witness:
  "run [Tick 1, Render streaming_1] (mount wf_1) = (streaming_1, gated_1) \<and>
   isStreaming streaming_1 \<and> workflowId no_id = [] \<and>
   timers gated_1 = [] \<and>
   list_all polled_with_id (network gated_1) \<and>
   step (Tick 1) (streaming_1, gated_1) = (streaming_1, gated_1) \<and>
   network (snd (mount no_id)) = [] \<and> timers (snd (mount no_id)) = [] \<and>
   network (snd (step (Render no_id) (streaming_1, gated_1))) = network gated_1 \<and>
   timers (snd (step (Render no_id) (streaming_1, gated_1))) = [] \<and>
   network (snd (step (StatusSettled 1 (Responded True (Json (Some completed_5))))
                   (streaming_1, gated_1))) = network gated_1 \<and>
   timers (snd (step (StatusSettled 1 (Responded True (Json (Some completed_5))))
                  (streaming_1, gated_1))) = [] \<and>
   render streaming_1 gated_1 = Preparing \<and>
   step ClickCancel (streaming_1, gated_1) = (streaming_1, gated_1) \<and>
   step ClickRetry (streaming_1, gated_1) = (streaming_1, gated_1) \<and>
   step ClickErrorRetry (streaming_1, gated_1) = (streaming_1, gated_1)"
proof -
  have r: "run [Tick 1, Render streaming_1] (mount wf_1) = (streaming_1, gated_1)"
    by (simp add: example_state_defs example_defs executor_defs)
  have g: "isStreaming streaming_1" by (simp add: example_defs)
  have g': "workflowId no_id = []" by (simp add: example_defs)
  from g have h2: "isStreaming streaming_1 \<or> workflowId streaming_1 = []" by simp
  from no_polling_while_gated[OF r h2, of 1 no_id 1 "Responded True (Json (Some completed_5))"]
    r g g'
  show ?thesis by blast
qed

text \<open>
  The status client can still be called while the workflow id is empty, by a handler:
  \<^verbatim>\<open>wf_1\<close> is shown as running, the id becomes empty (the timer is cleared and nothing
  is fetched), the Cancel button, drawn from the cached status, is clicked, and when the
  POST resolves the handler sends a status request with the empty id.
\<close>

theorem handler_fetch_with_empty_id:
  "workflowId (fst (run [StatusSettled 0 (Responded True (Json (Some running_1))),
                         Render no_id, ClickCancel] (mount wf_1))) = [] \<and>
   network (snd (run [StatusSettled 0 (Responded True (Json (Some running_1))),
                      Render no_id, ClickCancel,
                      CancelSettled 1 (Responded True (Json ()))] (mount wf_1)))
   = [GetStatus FromEffect ''wf_1'', PostCancel [], GetStatus FromHandler []]"
  by (simp add: example_defs executor_defs)

section \<open>Responses are applied in the order they resolve\<close>

text \<open>
  C7. The component keeps no sequence number and discards no response: whichever
  pending status request resolves with a parsed body, that body becomes the cached
  status (and the error is reset), whatever was cached before and whenever the request
  was sent. The cached status is the one of the response that resolved last.
\<close>

theorem last_resolved_response_wins:
  assumes "pending_request s n = Some (GetStatus org wid)"
  shows "workflowStatus (snd (step (StatusSettled n (Responded True (Json (Some d)))) (p, s))) = Some d \<and>
         error (snd (step (StatusSettled n (Responded True (Json (Some d)))) (p, s))) = None"
  using assms
  by (simp add: step_def fetchStatus_resume_def commit_def effect_def cleanup_def
      setInterval_def fetchStatus_def Let_def split: option.splits)

theorem last_resolved_response_wins_witness:
  "pending_request polling_1 0 = Some (GetStatus FromEffect ''wf_1'') \<and>
   workflowStatus (snd (step (StatusSettled 0 (Responded True (Json (Some running_1))))
                          (wf_1, polling_1))) = Some running_1 \<and>
   error (snd (step (StatusSettled 0 (Responded True (Json (Some running_1))))
                 (wf_1, polling_1))) = None"
proof -
  have h: "pending_request polling_1 0 = Some (GetStatus FromEffect ''wf_1'')"
    by (simp add: example_state_defs example_defs executor_defs)
  from last_resolved_response_wins[OF h, of running_1 wf_1] h show ?thesis by blast
qed

text \<open>
  Two requests are in flight, the first sent by the effect and the second, later, by the
  timer. The second resolves first (step 2 of 5), then the first (step 1 of 5): the
  component ends with the answer to the request that was sent first.
\<close>

theorem stale_response_overwrites:
  "network (snd (run [Tick 1] (mount wf_1)))
     = [GetStatus FromEffect ''wf_1'', GetStatus FromTimer ''wf_1''] \<and>
   workflowStatus (snd (run [Tick 1, StatusSettled 1 (Responded True (Json (Some running_2))),
                             StatusSettled 0 (Responded True (Json (Some running_1)))] (mount wf_1)))
     = Some running_1 \<and>
   running_1 \<noteq> running_2"
  by (simp add: example_defs executor_defs)

section \<open>The error view\<close>









text \<open>
  The two behaviours the statement of C10 leaves aside, at concrete inputs: an ok
  response with the body \<^verbatim>\<open>null\<close> empties the cache and brings the error view back;
  a cached step of type \<^verbatim>\<open>constructor\<close> makes the render throw, while a step of type
  \<^verbatim>\<open>toString\<close> is drawn, with a text in place of the icon.
\<close>

lemma null_body_drops_cache:
  "render wf_1 (snd (run [Tick 1, StatusSettled 1 (Responded True (Json None))]
                       (wf_1, tracking_1)))
   = LoadFailed null_status_message"
  by (simp add: example_state_defs example_defs executor_defs)

lemma row_throws_constructor:
  "row_throws (example_step 0 ''constructor'' ''pending'') \<and>
   row_throws (example_step 0 ''search'' ''valueOf'') \<and>
   draw_row (example_step 0 ''toString'' ''pending'')
     = Some (Text ''[object Undefined]'', Component Clock) \<and>
   draw_row (example_step 0 ''summarize'' ''queued'')
     = Some (Component FileText, Component Clock)"
  by (simp add: example_defs executor_defs)

section \<open>WorkflowLibrary: one list request at a time\<close>

lemma filter_drop_nth:
  "i < length xs \<Longrightarrow>
   length (filter P (drop_nth i xs)) = length (filter P xs) - (if P (xs ! i) then 1 else 0)"
proof -
  assume a: "i < length xs"
  then have "xs = take i xs @ xs ! i # drop (Suc i) xs" by (rule id_take_nth_drop)
  then have "filter P xs = filter P (take i xs) @ filter P [xs ! i] @ filter P (drop (Suc i) xs)"
    by (metis append_Cons append_Nil filter_append)
  then show ?thesis by (simp add: drop_nth_def)
qed

lemma one_load_frame:
  "in_flight s' = in_flight s \<Longrightarrow> isLoadingRef s' = isLoadingRef s \<Longrightarrow> one_load s \<Longrightarrow>
   one_load s'"
  by (simp add: one_load_def loads_in_flight_def)

lemma handleRefresh_one_load: "one_load s \<Longrightarrow> one_load (handleRefresh s)"
  by (simp add: one_load_def handleRefresh_def loadWorkflows_def send_def loads_in_flight_def)

lemma send_other_one_load: "\<not> is_load r \<Longrightarrow> one_load s \<Longrightarrow> one_load (send r s)"
  by (simp add: one_load_def send_def loads_in_flight_def)

lemma resume_one_load:
  assumes "one_load s" "i < length (in_flight s)"
  shows "one_load (lib_resume (in_flight s ! i) r (s\<lparr>in_flight := drop_nth i (in_flight s)\<rparr>))"
proof (cases "in_flight s ! i")
  case GetList
  with assms have "length (filter is_load (drop_nth i (in_flight s)))
                     = length (filter is_load (in_flight s)) - 1"
    by (simp add: filter_drop_nth)
  moreover have "length (filter is_load (in_flight s)) \<le> 1"
    using assms(1) by (simp add: one_load_def loads_in_flight_def split: if_splits)
  ultimately have "length (filter is_load (drop_nth i (in_flight s))) = 0" by simp
  with GetList show ?thesis
    by (simp add: one_load_def loads_in_flight_def loadWorkflows_resume_def Let_def
        split: response.splits body.splits)
next
  case (DeleteWorkflow wid sw)
  with assms have k: "one_load (s\<lparr>in_flight := drop_nth i (in_flight s)\<rparr>)"
    by (simp add: one_load_def loads_in_flight_def filter_drop_nth)
  show ?thesis using DeleteWorkflow
    by (auto intro!: one_load_frame[OF _ _ k] simp: handleDeleteWorkflow_resume_def
        split: response.splits)
next
  case (CancelWorkflow wid)
  with assms have k: "one_load (s\<lparr>in_flight := drop_nth i (in_flight s)\<rparr>)"
    by (simp add: one_load_def loads_in_flight_def filter_drop_nth)
  show ?thesis using CancelWorkflow handleRefresh_one_load[OF k]
    by (auto intro!: one_load_frame[OF _ _ k] simp: handleCancelWorkflow_resume_def
        split: response.splits)
next
  case (RetryWorkflow wid)
  with assms have k: "one_load (s\<lparr>in_flight := drop_nth i (in_flight s)\<rparr>)"
    by (simp add: one_load_def loads_in_flight_def filter_drop_nth)
  show ?thesis using RetryWorkflow handleRefresh_one_load[OF k]
    by (auto intro!: one_load_frame[OF _ _ k] simp: handleRetryWorkflow_resume_def
        split: response.splits)
qed

lemma lib_step_one_load: "one_load s \<Longrightarrow> one_load (lib_step e s)"
proof (cases e)
  case (Settled i r)
  assume "one_load s"
  then show ?thesis using Settled by (simp add: resume_one_load)
next
  case ClickRefresh
  assume "one_load s"
  then show ?thesis using ClickRefresh by (simp add: handleRefresh_one_load)
next
  case (ClickCancelWorkflow wid)
  assume "one_load s"
  then show ?thesis using ClickCancelWorkflow
    by (simp add: handleCancelWorkflow_def send_other_one_load)
next
  case (ClickRetryWorkflow wid)
  assume "one_load s"
  then show ?thesis using ClickRetryWorkflow
    by (simp add: handleRetryWorkflow_def send_other_one_load)
next
  case (ClickDelete wid)
  assume k: "one_load s"
  show ?thesis using ClickDelete
    by (auto intro!: one_load_frame[OF _ _ k] k split: option.splits)
next
  case DialogClose
  assume k: "one_load s"
  show ?thesis using DialogClose by (auto intro!: one_load_frame[OF _ _ k])
next
  case DialogConfirm
  assume "one_load s"
  then show ?thesis using DialogConfirm
    by (simp add: handleDeleteWorkflow_def send_other_one_load split: option.splits)
qed

lemma lib_run_one_load: "one_load s \<Longrightarrow> one_load (lib_run es s)"
  by (induction es arbitrary: s) (simp_all add: lib_step_one_load)

lemma lib_mount_one_load: "one_load (lib_mount ws0)"
  by (simp add: lib_mount_def lib_mount_effect_def lib_init_def loadWorkflows_def send_def
      one_load_def loads_in_flight_def)

text \<open>
  C9. In every state the library view can reach from its mount, at most one list request
  is in flight, and \<^verbatim>\<open>isLoadingRef\<close> is set exactly when there is one. A call of
  \<^verbatim>\<open>loadWorkflows\<close> while the ref is set returns the state as it is: no request is
  sent and nothing is queued; a refresh in that situation sends nothing either. The
  effect of the mount sends exactly one list request.
\<close>

theorem single_load_in_flight:
  "loads_in_flight (lib_run es (lib_mount ws0)) \<le> 1 \<and>
   (isLoadingRef (lib_run es (lib_mount ws0)) \<longleftrightarrow>
      loads_in_flight (lib_run es (lib_mount ws0)) = 1) \<and>
   (isLoadingRef s \<longrightarrow> loadWorkflows s = s \<and> issued (handleRefresh s) = issued s \<and>
      in_flight (handleRefresh s) = in_flight s) \<and>
   issued (lib_mount ws0) = [GetList] \<and> in_flight (lib_mount ws0) = [GetList] \<and>
   isLoadingRef (lib_mount ws0)"
proof -
  have "one_load (lib_run es (lib_mount ws0))"
    using lib_mount_one_load by (rule lib_run_one_load)
  then have a: "loads_in_flight (lib_run es (lib_mount ws0)) \<le> 1 \<and>
   (isLoadingRef (lib_run es (lib_mount ws0)) \<longleftrightarrow>
      loads_in_flight (lib_run es (lib_mount ws0)) = 1)"
    by (simp add: one_load_def split: if_splits)
  have b: "isLoadingRef s \<longrightarrow> loadWorkflows s = s \<and> issued (handleRefresh s) = issued s \<and>
      in_flight (handleRefresh s) = in_flight s"
    by (simp add: loadWorkflows_def handleRefresh_def)
  have c: "issued (lib_mount ws0) = [GetList] \<and> in_flight (lib_mount ws0) = [GetList] \<and>
   isLoadingRef (lib_mount ws0)"
    by (simp add: lib_mount_def lib_mount_effect_def lib_init_def loadWorkflows_def send_def)
  from a b c show ?thesis by blast
qed

text \<open>
  An instance: the first load brings two workflows; the user cancels the running one and
  presses refresh before the cancel request resolves; the refresh that the cancel
  handler asks for afterwards is turned away.
\<close>

theorem single_load_in_flight_witness:
  "isLoadingRef (lib_mount []) \<and>
   loadWorkflows (lib_mount []) = lib_mount [] \<and>
   issued (handleRefresh (lib_mount [])) = issued (lib_mount []) \<and>
   in_flight (handleRefresh (lib_mount [])) = in_flight (lib_mount []) \<and>
   loads_in_flight
     (lib_run [Settled 0 (Responded True (Json (Some [summary_1, summary_2]))),
               ClickCancelWorkflow ''wf_2'', ClickRefresh,
               Settled 0 (Responded True (Json None))] (lib_mount [])) \<le> 1 \<and>
   issued
     (lib_run [Settled 0 (Responded True (Json (Some [summary_1, summary_2]))),
               ClickCancelWorkflow ''wf_2'', ClickRefresh,
               Settled 0 (Responded True (Json None))] (lib_mount []))
     = [GetList, CancelWorkflow ''wf_2'', GetList]"
proof -
  have i: "isLoadingRef (lib_mount [])" by (simp add: library_defs)
  have t: "issued
     (lib_run [Settled 0 (Responded True (Json (Some [summary_1, summary_2]))),
               ClickCancelWorkflow ''wf_2'', ClickRefresh,
               Settled 0 (Responded True (Json None))] (lib_mount []))
     = [GetList, CancelWorkflow ''wf_2'', GetList]"
    by (simp add: library_defs example_defs)
  from single_load_in_flight[of
      "[Settled 0 (Responded True (Json (Some [summary_1, summary_2]))),
        ClickCancelWorkflow ''wf_2'', ClickRefresh, Settled 0 (Responded True (Json None))]"
      "[]" "lib_mount []"] i t
  show ?thesis by blast
qed

section \<open>WorkflowLibrary: a workflow leaves the list after the server deleted it\<close>

text \<open>
  C6. The delete handler sends the DELETE and leaves the list as it is. After the
  \<^verbatim>\<open>await\<close>, the list is replaced, by the captured list without the workflow, exactly
  when the response is ok; then no entry with that id is left. A rejected request and a
  response that is not ok leave the list unchanged. In the view: with the dialog open on
  a workflow, confirming leaves the list unchanged, and when the DELETE then settles the
  list has lost the workflow if the response is ok and is unchanged otherwise.
\<close>

theorem delete_only_after_success:
  "workflows (handleDeleteWorkflow wid s) = workflows s \<and>
   in_flight (handleDeleteWorkflow wid s) = in_flight s @ [DeleteWorkflow wid (workflows s)] \<and>
   workflows (handleDeleteWorkflow_resume wid sw r s) =
     (if is_ok r then filter (\<lambda>w. sm_id w \<noteq> wid) sw else workflows s) \<and>
   (is_ok r \<longrightarrow> wid \<notin> sm_id ` set (workflows (handleDeleteWorkflow_resume wid sw r s))) \<and>
   (confirmDialog s = Some (wid, title) \<longrightarrow>
      workflows (lib_step DialogConfirm s) = workflows s \<and>
      workflows (lib_run [DialogConfirm, Settled (length (in_flight s)) r'] s) =
        (if is_ok r' then filter (\<lambda>w. sm_id w \<noteq> wid) (workflows s) else workflows s))"
proof -
  have a: "workflows (handleDeleteWorkflow wid s) = workflows s \<and>
   in_flight (handleDeleteWorkflow wid s) = in_flight s @ [DeleteWorkflow wid (workflows s)]"
    by (simp add: handleDeleteWorkflow_def send_def)
  have b: "workflows (handleDeleteWorkflow_resume wid sw r s) =
     (if is_ok r then filter (\<lambda>w. sm_id w \<noteq> wid) sw else workflows s)"
    by (cases r) (simp_all add: handleDeleteWorkflow_resume_def)
  have c: "is_ok r \<longrightarrow> wid \<notin> sm_id ` set (workflows (handleDeleteWorkflow_resume wid sw r s))"
    using b by auto
  have d: "confirmDialog s = Some (wid, title) \<longrightarrow>
      workflows (lib_step DialogConfirm s) = workflows s \<and>
      workflows (lib_run [DialogConfirm, Settled (length (in_flight s)) r'] s) =
        (if is_ok r' then filter (\<lambda>w. sm_id w \<noteq> wid) (workflows s) else workflows s)"
    by (cases r')
      (auto simp: handleDeleteWorkflow_def send_def drop_nth_def without_body_def
        handleDeleteWorkflow_resume_def)
  from a b c d show ?thesis by blast
qed

text \<open>
  An instance: the dialog is open on \<^verbatim>\<open>wf_1\<close>, one of two listed workflows. A response
  that is ok removes it; a response that is not ok, and a rejected request, keep both.
\<close>

theorem delete_only_after_success_witness:
  "confirmDialog dialog_open = Some (''wf_1'', ''Compare frameworks'') \<and>
   workflows dialog_open = [summary_1, summary_2] \<and>
   is_ok (Responded True (Json ()) :: unit response) \<and>
   workflows (lib_step DialogConfirm dialog_open) = workflows dialog_open \<and>
   workflows (lib_run [DialogConfirm,
                       Settled (length (in_flight dialog_open)) (Responded True (Json None))]
                dialog_open)
     = [summary_2] \<and>
   workflows (lib_run [DialogConfirm,
                       Settled (length (in_flight dialog_open)) (Responded False (Json None))]
                dialog_open)
     = [summary_1, summary_2] \<and>
   workflows (lib_run [DialogConfirm,
                       Settled (length (in_flight dialog_open)) (Rejected ''Failed to fetch'')]
                dialog_open)
     = [summary_1, summary_2] \<and>
   ''wf_1'' \<notin> sm_id ` set (workflows (handleDeleteWorkflow_resume ''wf_1''
                         [summary_1, summary_2] (Responded True (Json ())) dialog_open))"
proof -
  have h: "confirmDialog dialog_open = Some (''wf_1'', ''Compare frameworks'')"
    by (simp add: library_defs example_defs)
  have w: "workflows dialog_open = [summary_1, summary_2]"
    by (simp add: library_defs example_defs)
  have f: "filter (\<lambda>w. sm_id w \<noteq> ''wf_1'') [summary_1, summary_2] = [summary_2]"
    by (simp add: example_defs)
  have k: "is_ok (Responded True (Json ()) :: unit response)" by simp
  note t = delete_only_after_success[of "''wf_1''" dialog_open "[summary_1, summary_2]"
      "Responded True (Json ())" "''Compare frameworks''"]
  have c: "workflows (lib_step DialogConfirm dialog_open) = workflows dialog_open"
    using t[of "Rejected ''Failed to fetch''"] h by blast
  have "workflows (lib_run [DialogConfirm,
                       Settled (length (in_flight dialog_open)) (Responded True (Json None))]
                dialog_open)
     = (if is_ok (Responded True (Json None) :: WorkflowSummary list option response)
        then filter (\<lambda>w. sm_id w \<noteq> ''wf_1'') (workflows dialog_open)
        else workflows dialog_open)"
    using t[of "Responded True (Json None)"] h by blast
  then have d1: "workflows (lib_run [DialogConfirm,
                       Settled (length (in_flight dialog_open)) (Responded True (Json None))]
                dialog_open) = [summary_2]"
    by (simp only: is_ok.simps if_True w f)
  have "workflows (lib_run [DialogConfirm,
                       Settled (length (in_flight dialog_open)) (Responded False (Json None))]
                dialog_open)
     = (if is_ok (Responded False (Json None) :: WorkflowSummary list option response)
        then filter (\<lambda>w. sm_id w \<noteq> ''wf_1'') (workflows dialog_open)
        else workflows dialog_open)"
    using t[of "Responded False (Json None)"] h by blast
  then have d2: "workflows (lib_run [DialogConfirm,
                       Settled (length (in_flight dialog_open)) (Responded False (Json None))]
                dialog_open) = [summary_1, summary_2]"
    by (simp only: is_ok.simps if_False w)
  have "workflows (lib_run [DialogConfirm,
                       Settled (length (in_flight dialog_open)) (Rejected ''Failed to fetch'')]
                dialog_open)
     = (if is_ok (Rejected ''Failed to fetch'' :: WorkflowSummary list option response)
        then filter (\<lambda>w. sm_id w \<noteq> ''wf_1'') (workflows dialog_open)
        else workflows dialog_open)"
    using t[of "Rejected ''Failed to fetch''"] h by blast
  then have d3: "workflows (lib_run [DialogConfirm,
                       Settled (length (in_flight dialog_open)) (Rejected ''Failed to fetch'')]
                dialog_open) = [summary_1, summary_2]"
    by (simp only: is_ok.simps if_False w)
  have e: "''wf_1'' \<notin> sm_id ` set (workflows (handleDeleteWorkflow_resume ''wf_1''
                         [summary_1, summary_2] (Responded True (Json ())) dialog_open))"
    using t[of "Rejected ''Failed to fetch''"] k by blast
  from h w k c d1 d2 d3 e show ?thesis by blast
qed

end
